theory Spec2Isabelle
  imports Complex_Main "HOL-Library.AList" "HOL-Library.Monad_Syntax"
begin

section \<open>JavaScript values of the content documents\<close>

text \<open>
  The site is one script, \<^verbatim>\<open>app.js\<close>, kept in the repository in two copies. The copy
  \<^verbatim>\<open>src/js/app.js\<close> reads every field of a document as it is (its definitions carry the
  suffix \<open>_strict\<close>); the copy \<^verbatim>\<open>src/unnamed/part_000\<close> guards every read with
  \<^verbatim>\<open>||\<close>, \<^verbatim>\<open>Array.isArray\<close> and \<^verbatim>\<open>?.\<close> (suffix \<open>_tolerant\<close>). Code that is
  the same in both copies is modelled once.

  A value is what \<^verbatim>\<open>JSON.parse\<close> can give, plus \<^verbatim>\<open>undefined\<close> (the value of a
  missing property) and the built-in objects that a property read can reach through a
  prototype (\<^verbatim>\<open>"abc".link\<close> is the function \<^verbatim>\<open>String.prototype.link\<close>). The program never
  calculates with a number of a document: it only tests it for truthiness and prints it.
  A number is therefore held as the text that \<^verbatim>\<open>ToString\<close> gives for it (\<^verbatim>\<open>"0"\<close> for both
  zeros). An object is the list of its own properties in enumeration order.
\<close>

datatype jsval =
    JUndefined
  | JNull
  | JBool bool
  | JNum string
  | JStr string
  | JArr "jsval list"
  | JObj "(string \<times> jsval) list"
  | JBuiltin string

text \<open>\<^verbatim>\<open>ToBoolean\<close>: what \<^verbatim>\<open>if (v)\<close>, \<^verbatim>\<open>!v\<close>, \<^verbatim>\<open>v || d\<close> and \<^verbatim>\<open>v ? a : b\<close> test.\<close>

fun truthy :: "jsval \<Rightarrow> bool" where
  "truthy JUndefined = False"
| "truthy JNull = False"
| "truthy (JBool b) = b"
| "truthy (JNum s) = (s \<noteq> ''0'' \<and> s \<noteq> ''NaN'')"
| "truthy (JStr s) = (s \<noteq> [])"
| "truthy (JArr xs) = True"
| "truthy (JObj kvs) = True"
| "truthy (JBuiltin k) = True"

text \<open>\<^verbatim>\<open>a || b\<close>\<close>

definition orElse :: "jsval \<Rightarrow> jsval \<Rightarrow> jsval" where
  "orElse a b = (if truthy a then a else b)"

definition nullish :: "jsval \<Rightarrow> bool" where
  "nullish v = (v = JUndefined \<or> v = JNull)"

text \<open>
  The property read \<^verbatim>\<open>v.k\<close>; \<open>None\<close> is the \<^verbatim>\<open>TypeError\<close> that a read on
  \<^verbatim>\<open>undefined\<close> or \<^verbatim>\<open>null\<close> throws. The equations are those of the property names
  that the program reads from documents (\<^verbatim>\<open>name tagline subtitle copyright title paragraphs
  features icon text categories items description note details phone link label value
  cta_text cta_button\<close>): of these, only \<^verbatim>\<open>link\<close> is inherited, by strings.
\<close>

fun getProp :: "jsval \<Rightarrow> string \<Rightarrow> jsval option" where
  "getProp JUndefined k = None"
| "getProp JNull k = None"
| "getProp (JObj kvs) k = Some (case map_of kvs k of Some v \<Rightarrow> v | None \<Rightarrow> JUndefined)"
| "getProp (JStr s) k = Some (if k = ''link'' then JBuiltin ''link'' else JUndefined)"
| "getProp (JBool b) k = Some JUndefined"
| "getProp (JNum n) k = Some JUndefined"
| "getProp (JArr xs) k = Some JUndefined"
| "getProp (JBuiltin f) k = Some JUndefined"

text \<open>\<^verbatim>\<open>v?.k\<close>\<close>

definition getPropOpt :: "jsval \<Rightarrow> string \<Rightarrow> jsval" where
  "getPropOpt v k = (case getProp v k of None \<Rightarrow> JUndefined | Some x \<Rightarrow> x)"

definition isArray :: "jsval \<Rightarrow> bool" where
  "isArray v = (case v of JArr xs \<Rightarrow> True | _ \<Rightarrow> False)"

text \<open>
  \<^verbatim>\<open>Object.values(v)\<close>: the own enumerable properties; a string has one per character,
  a number or a boolean has none, \<^verbatim>\<open>undefined\<close> and \<^verbatim>\<open>null\<close> throw.
\<close>

fun objectValues :: "jsval \<Rightarrow> jsval list option" where
  "objectValues JUndefined = None"
| "objectValues JNull = None"
| "objectValues (JObj kvs) = Some (map snd kvs)"
| "objectValues (JArr xs) = Some xs"
| "objectValues (JStr s) = Some (map (\<lambda>c. JStr [c]) s)"
| "objectValues (JBool b) = Some []"
| "objectValues (JNum n) = Some []"
| "objectValues (JBuiltin f) = Some []"

text \<open>\<^verbatim>\<open>xs.join(sep)\<close> on strings.\<close>

fun joinWith :: "string \<Rightarrow> string list \<Rightarrow> string" where
  "joinWith sep [] = []"
| "joinWith sep [x] = x"
| "joinWith sep (x # y # ys) = x @ sep @ joinWith sep (y # ys)"

text \<open>
  \<^verbatim>\<open>ToString\<close>, as a template literal \<^verbatim>\<open>${v}\<close> applies it. An array prints its
  elements separated by commas, \<^verbatim>\<open>undefined\<close> and \<^verbatim>\<open>null\<close> elements as nothing. An
  object prints as \<^verbatim>\<open>[object Object]\<close>, unless it has an own property \<^verbatim>\<open>toString\<close>:
  a parsed value is never callable, \<^verbatim>\<open>valueOf\<close> then gives no primitive either, and the
  conversion throws a \<^verbatim>\<open>TypeError\<close> (\<open>None\<close>). A built-in function prints the way
  the engines print native code.
\<close>

fun toStr :: "jsval \<Rightarrow> string option" where
  "toStr JUndefined = Some ''undefined''"
| "toStr JNull = Some ''null''"
| "toStr (JBool b) = Some (if b then ''true'' else ''false'')"
| "toStr (JNum s) = Some s"
| "toStr (JStr s) = Some s"
| "toStr (JArr xs) =
     map_option (joinWith '','')
       (those (map (\<lambda>x. if x = JUndefined \<or> x = JNull then Some [] else toStr x) xs))"
| "toStr (JObj kvs) =
     (if ''toString'' \<in> fst ` set kvs then None else Some ''[object Object]'')"
| "toStr (JBuiltin f) = Some (''function '' @ f @ ''() { [native code] }'')"

text \<open>\<^verbatim>\<open>xs.map(f).join('')\<close>, where \<open>f\<close> may throw.\<close>

definition mapJoin :: "('a \<Rightarrow> string option) \<Rightarrow> 'a list \<Rightarrow> string option" where
  "mapJoin f xs = map_option concat (those (map f xs))"

text \<open>A line break of a template literal and the indentation that follows it.\<close>

definition nl :: "nat \<Rightarrow> string" where
  "nl n = CHR 0x0A # replicate n (CHR '' '')"

section \<open>The page, the console and the network\<close>

datatype js_error = JsError string | TypeError string | SyntaxError string

datatype logarg = LStr string | LErr js_error

datatype console_call = ConsoleError "logarg list" | ConsoleLog "logarg list"

text \<open>What an element of the page skeleton was last given.\<close>

datatype content = TextContent string | InnerHTML string

text \<open>
  \<^verbatim>\<open>fetch(url)\<close> rejects, or resolves to a response with its \<^verbatim>\<open>ok\<close> flag and a
  body, which \<^verbatim>\<open>response.text()\<close> and \<^verbatim>\<open>response.json()\<close> read or fail to read.
\<close>

datatype body = BodyError js_error | Body string

datatype fetched = FetchRejected js_error | Response bool body

text \<open>
  The surroundings of a call: the network, and \<^verbatim>\<open>JSON.parse\<close> (\<open>Inl\<close> the message of
  its \<^verbatim>\<open>SyntaxError\<close>).
\<close>

record world =
  fetch :: "string \<Rightarrow> fetched"
  JSON_parse :: "string \<Rightarrow> string + jsval"

text \<open>
  The state of the page: the own properties of \<^verbatim>\<open>dataCache\<close>, the elements that the
  renderers write (by selector; the skeleton has them all), the console, the URLs
  requested so far, and the event listeners added so far (selector and event).
\<close>

record state =
  dataCache :: "(string \<times> jsval) list"
  dom :: "string \<Rightarrow> content"
  console :: "console_call list"
  requests :: "string list"
  listeners :: "(string \<times> string) list"

section \<open>The accessor \<^verbatim>\<open>loadData\<close>\<close>

text \<open>
  \<^verbatim>\<open>const dataCache = {}\<close> is an ordinary object: a read \<^verbatim>\<open>dataCache[filename]\<close>
  finds an own property, or else what \<^verbatim>\<open>Object.prototype\<close> has under that name.
\<close>

definition objectPrototypeKeys :: "string list" where
  "objectPrototypeKeys =
     [''constructor'', ''hasOwnProperty'', ''isPrototypeOf'', ''propertyIsEnumerable'',
      ''toLocaleString'', ''toString'', ''valueOf'', ''__proto__'', ''__defineGetter__'',
      ''__defineSetter__'', ''__lookupGetter__'', ''__lookupSetter__'']"

definition dataCache_get :: "(string \<times> jsval) list \<Rightarrow> string \<Rightarrow> jsval" where
  "dataCache_get c k =
     (case map_of c k of
        Some v \<Rightarrow> v
      | None \<Rightarrow> if k \<in> set objectPrototypeKeys then JBuiltin k else JUndefined)"

definition logError :: "logarg list \<Rightarrow> state \<Rightarrow> state" where
  "logError args st = st\<lparr>console := console st @ [ConsoleError args]\<rparr>"

definition url_of :: "string \<Rightarrow> string" where
  "url_of filename = ''data/'' @ filename @ ''.json''"

text \<open>
  The outer \<^verbatim>\<open>catch\<close> of \<^verbatim>\<open>loadData\<close>, the same in both copies:
  \<^verbatim>\<open>console.error(`Error loading ${filename}:`, error); return null\<close>.
\<close>

definition caught :: "string \<Rightarrow> js_error \<Rightarrow> state \<Rightarrow> jsval \<times> state" where
  "caught filename e st =
     (JNull, logError [LStr (''Error loading '' @ filename @ '':''), LErr e] st)"

text \<open>
  \<^verbatim>\<open>src/js/app.js\<close>, lines 13-28. Every failure inside the \<^verbatim>\<open>try\<close> reaches the one
  \<^verbatim>\<open>catch\<close>. The store \<^verbatim>\<open>dataCache[filename] = data\<close> is reached only after the read
  of the same name was falsy, so never for a name of \<^verbatim>\<open>Object.prototype\<close>.
\<close>

definition loadData_strict :: "world \<Rightarrow> string \<Rightarrow> state \<Rightarrow> jsval \<times> state" where
  "loadData_strict w filename st =
     (if truthy (dataCache_get (dataCache st) filename)
      then (dataCache_get (dataCache st) filename, st)
      else
        let st1 = st\<lparr>requests := requests st @ [url_of filename]\<rparr>
        in case fetch w (url_of filename) of
             FetchRejected e \<Rightarrow> caught filename e st1
           | Response ok b \<Rightarrow>
               if \<not> ok then caught filename (JsError (''Failed to load '' @ filename)) st1
               else (case b of
                      BodyError e \<Rightarrow> caught filename e st1
                    | Body text \<Rightarrow>
                        (case JSON_parse w text of
                           Inl msg \<Rightarrow> caught filename (SyntaxError msg) st1
                         | Inr data \<Rightarrow>
                             (data, st1\<lparr>dataCache := AList.update filename data (dataCache st1)\<rparr>))))"

text \<open>\<^verbatim>\<open>src/unnamed/part_000\<close>, lines 13-39: the parse has a \<^verbatim>\<open>try\<close> of its own.\<close>

definition loadData_tolerant :: "world \<Rightarrow> string \<Rightarrow> state \<Rightarrow> jsval \<times> state" where
  "loadData_tolerant w filename st =
     (if truthy (dataCache_get (dataCache st) filename)
      then (dataCache_get (dataCache st) filename, st)
      else
        let st1 = st\<lparr>requests := requests st @ [url_of filename]\<rparr>
        in case fetch w (url_of filename) of
             FetchRejected e \<Rightarrow> caught filename e st1
           | Response ok b \<Rightarrow>
               if \<not> ok then caught filename (JsError (''Failed to load '' @ filename)) st1
               else (case b of
                      BodyError e \<Rightarrow> caught filename e st1
                    | Body text \<Rightarrow>
                        (case JSON_parse w text of
                           Inl msg \<Rightarrow>
                             (JNull,
                              logError [LStr ''Check for missing commas, extra commas, or unclosed brackets'']
                                (logError [LStr (''JSON syntax error in '' @ filename @ ''.json:''), LStr msg] st1))
                         | Inr data \<Rightarrow>
                             (data, st1\<lparr>dataCache := AList.update filename data (dataCache st1)\<rparr>))))"

section \<open>Statements that write to the page\<close>

text \<open>
  An \<^verbatim>\<open>async\<close> function settles: its promise is fulfilled, or rejected with what was
  thrown. In the renderers nothing but a \<^verbatim>\<open>TypeError\<close> is thrown.
\<close>

datatype outcome = Fulfilled | Rejected

type_synonym stmt = "state \<Rightarrow> state \<times> outcome"

text \<open>
  What the setter of \<^verbatim>\<open>textContent\<close> makes of the assigned value:
  \<^verbatim>\<open>undefined\<close> and \<^verbatim>\<open>null\<close> give the empty text, anything else is converted by
  \<^verbatim>\<open>ToString\<close>.
\<close>

definition domString :: "jsval \<Rightarrow> string option" where
  "domString v = (if nullish v then Some [] else toStr v)"

text \<open>
  \<^verbatim>\<open>element.textContent = value\<close> and \<^verbatim>\<open>element.innerHTML = markup\<close>, where
  evaluating the right-hand side may throw; then the element is not written.
\<close>

definition assignText :: "string \<Rightarrow> jsval option \<Rightarrow> stmt" where
  "assignText sel v st =
     (case Option.bind v domString of
        None \<Rightarrow> (st, Rejected)
      | Some s \<Rightarrow> (st\<lparr>dom := (dom st)(sel := TextContent s)\<rparr>, Fulfilled))"

definition assignHTML :: "string \<Rightarrow> string option \<Rightarrow> stmt" where
  "assignHTML sel markup st =
     (case markup of
        None \<Rightarrow> (st, Rejected)
      | Some s \<Rightarrow> (st\<lparr>dom := (dom st)(sel := InnerHTML s)\<rparr>, Fulfilled))"

text \<open>Statements in sequence: the first that throws ends the function.\<close>

fun runAll :: "stmt list \<Rightarrow> stmt" where
  "runAll [] st = (st, Fulfilled)"
| "runAll (s # ss) st =
     (case s st of
        (st1, Fulfilled) \<Rightarrow> runAll ss st1
      | (st1, Rejected) \<Rightarrow> (st1, Rejected))"

text \<open>
  \<^verbatim>\<open>v.map(f).join('')\<close> on a value as it is: only an array has \<^verbatim>\<open>map\<close>, and
  calling it on anything else throws.
\<close>

definition arrayMapJoin :: "(jsval \<Rightarrow> string option) \<Rightarrow> jsval \<Rightarrow> string option" where
  "arrayMapJoin f v = (case v of JArr xs \<Rightarrow> mapJoin f xs | _ \<Rightarrow> None)"

text \<open>\<^verbatim>\<open>Array.isArray(v) ? v : []\<close>\<close>

definition arrayOrEmpty :: "jsval \<Rightarrow> jsval list" where
  "arrayOrEmpty v = (case v of JArr xs \<Rightarrow> xs | _ \<Rightarrow> [])"

text \<open>\<^verbatim>\<open>${v.k || d}\<close>\<close>

definition fieldOr :: "jsval \<Rightarrow> string \<Rightarrow> string \<Rightarrow> string option" where
  "fieldOr v k d = do { x \<leftarrow> getProp v k; toStr (orElse x (JStr d)) }"

text \<open>\<^verbatim>\<open>${v.k}\<close>\<close>

definition field :: "jsval \<Rightarrow> string \<Rightarrow> string option" where
  "field v k = do { x \<leftarrow> getProp v k; toStr x }"

text \<open>
  \<^verbatim>\<open>s.replace(pattern, replacement)\<close> with a string pattern: the first occurrence.
\<close>

fun replaceFirst :: "string \<Rightarrow> string \<Rightarrow> string \<Rightarrow> string" where
  "replaceFirst pat rep [] = (if pat = [] then rep else [])"
| "replaceFirst pat rep (c # cs) =
     (if take (length pat) (c # cs) = pat then rep @ drop (length pat) (c # cs)
      else c # replaceFirst pat rep cs)"

text \<open>
  \<^verbatim>\<open>v.replace(' Kitchen', '')\<close>: of the values of a document only a string has
  \<^verbatim>\<open>replace\<close>.
\<close>

definition replaceKitchen :: "jsval \<Rightarrow> jsval option" where
  "replaceKitchen v =
     (case v of JStr s \<Rightarrow> Some (JStr (replaceFirst '' Kitchen'' [] s)) | _ \<Rightarrow> None)"

section \<open>\<^verbatim>\<open>renderSite\<close>, the same in both copies\<close>

type_synonym loader = "world \<Rightarrow> string \<Rightarrow> state \<Rightarrow> jsval \<times> state"

text \<open>
  Lines 33-48 of \<^verbatim>\<open>src/js/app.js\<close> and 44-59 of \<^verbatim>\<open>part_000\<close>. The statements after
  the guard \<^verbatim>\<open>if (!site) return\<close>, one for each assignment, then the function with its
  call of \<^verbatim>\<open>loadData\<close> and the guard.
\<close>

definition renderSite_body :: "jsval \<Rightarrow> stmt" where
  "renderSite_body site =
     runAll
       [assignText ''.hero h1'' (getProp site ''name''),
        assignText ''.tagline'' (getProp site ''tagline''),
        assignText ''.subtitle'' (getProp site ''subtitle''),
        assignText ''.nav-logo'' (Option.bind (getProp site ''name'') replaceKitchen),
        assignText ''.footer-logo'' (getProp site ''name''),
        assignHTML ''.copyright'' (map_option (\<lambda>c. ''&copy; '' @ c) (field site ''copyright''))]"

definition renderSite :: "loader \<Rightarrow> world \<Rightarrow> state \<Rightarrow> state \<times> outcome" where
  "renderSite loadData w st =
     (let (site, st1) = loadData w ''site'' st in
      if \<not> truthy site then (st1, Fulfilled)
      else renderSite_body site st1)"

section \<open>The renderers of \<^verbatim>\<open>src/js/app.js\<close>\<close>

text \<open>
  \<^verbatim>\<open>renderAbout\<close>, lines 53-80: the callback of \<^verbatim>\<open>about.features.map\<close>, the markup for
  \<^verbatim>\<open>.about-text\<close> with the paragraphs (lines 62-79), the statements after the guard, and
  the function.
\<close>

definition featureHtml_strict :: "jsval \<Rightarrow> string option" where
  \<open>featureHtml_strict f = do {
     icon \<leftarrow> field f ''icon'';
     text \<leftarrow> field f ''text'';
     Some (nl 12 @ ''<div class="feature">'' @
           nl 16 @ ''<span class="feature-icon">'' @ icon @ ''</span>'' @
           nl 16 @ ''<span>'' @ text @ ''</span>'' @
           nl 12 @ ''</div>'' @ nl 8) }\<close>

definition aboutTextHtml_strict :: "jsval \<Rightarrow> string option" where
  \<open>aboutTextHtml_strict about = do {
     paragraphs \<leftarrow> getProp about ''paragraphs'';
     paragraphsHtml \<leftarrow>
       arrayMapJoin (\<lambda>p. map_option (\<lambda>t. ''<p>'' @ t @ ''</p>'') (toStr p)) paragraphs;
     features \<leftarrow> getProp about ''features'';
     featuresHtml \<leftarrow> arrayMapJoin featureHtml_strict features;
     Some (nl 8 @ paragraphsHtml @
           nl 8 @ ''<div class="features">'' @ featuresHtml @ ''</div>'' @ nl 4) }\<close>

definition renderAbout_strict_body :: "jsval \<Rightarrow> stmt" where
  "renderAbout_strict_body about =
     runAll
       [assignText ''#about h2'' (getProp about ''title''),
        assignHTML ''#about .about-text'' (aboutTextHtml_strict about)]"

definition renderAbout_strict :: "world \<Rightarrow> state \<Rightarrow> state \<times> outcome" where
  "renderAbout_strict w st =
     (let (about, st1) = loadData_strict w ''about'' st in
      if \<not> truthy about then (st1, Fulfilled)
      else renderAbout_strict_body about st1)"

text \<open>
  \<^verbatim>\<open>renderMenu\<close>, lines 85-114: the callback of \<^verbatim>\<open>category.items.map\<close>, the callback
  of \<^verbatim>\<open>menu.categories.map\<close>, the markup for \<^verbatim>\<open>.menu-grid\<close>, the statements and the
  function.
\<close>

definition dishHtml_strict :: "jsval \<Rightarrow> string option" where
  \<open>dishHtml_strict item = do {
     name \<leftarrow> field item ''name'';
     description \<leftarrow> field item ''description'';
     Some (nl 24 @ ''<li>'' @
           nl 28 @ ''<span class="dish-name">'' @ name @ ''</span>'' @
           nl 28 @ ''<span class="dish-desc">'' @ description @ ''</span>'' @
           nl 24 @ ''</li>'' @ nl 20) }\<close>

definition categoryHtml_strict :: "jsval \<Rightarrow> string option" where
  \<open>categoryHtml_strict category = do {
     name \<leftarrow> field category ''name'';
     items \<leftarrow> getProp category ''items'';
     itemsHtml \<leftarrow> arrayMapJoin dishHtml_strict items;
     Some (nl 12 @ ''<div class="menu-category">'' @
           nl 16 @ ''<h3>'' @ name @ ''</h3>'' @
           nl 16 @ ''<ul>'' @
           nl 20 @ itemsHtml @
           nl 16 @ ''</ul>'' @
           nl 12 @ ''</div>'' @ nl 8) }\<close>

definition menuGridHtml_strict :: "jsval \<Rightarrow> string option" where
  "menuGridHtml_strict menu = do {
     categories \<leftarrow> getProp menu ''categories'';
     arrayMapJoin categoryHtml_strict categories }"

definition renderMenu_strict_body :: "jsval \<Rightarrow> stmt" where
  "renderMenu_strict_body menu =
     runAll
       [assignText ''#menu h2'' (getProp menu ''title''),
        assignHTML ''#menu .menu-grid'' (menuGridHtml_strict menu),
        assignText ''#menu .menu-note'' (getProp menu ''note'')]"

definition renderMenu_strict :: "world \<Rightarrow> state \<Rightarrow> state \<times> outcome" where
  "renderMenu_strict w st =
     (let (menu, st1) = loadData_strict w ''menu'' st in
      if \<not> truthy menu then (st1, Fulfilled)
      else renderMenu_strict_body menu st1)"

text \<open>
  \<^verbatim>\<open>renderServices\<close>, lines 119-139.
\<close>

definition serviceHtml_strict :: "jsval \<Rightarrow> string option" where
  \<open>serviceHtml_strict service = do {
     icon \<leftarrow> field service ''icon'';
     name \<leftarrow> field service ''name'';
     description \<leftarrow> field service ''description'';
     Some (nl 12 @ ''<div class="service-card">'' @
           nl 16 @ ''<div class="service-icon">'' @ icon @ ''</div>'' @
           nl 16 @ ''<h3>'' @ name @ ''</h3>'' @
           nl 16 @ ''<p>'' @ description @ ''</p>'' @
           nl 12 @ ''</div>'' @ nl 8) }\<close>

definition servicesGridHtml_strict :: "jsval \<Rightarrow> string option" where
  "servicesGridHtml_strict services = do {
     items \<leftarrow> getProp services ''items'';
     arrayMapJoin serviceHtml_strict items }"

definition renderServices_strict_body :: "jsval \<Rightarrow> stmt" where
  "renderServices_strict_body services =
     runAll
       [assignText ''#services h2'' (getProp services ''title''),
        assignHTML ''#services .services-grid'' (servicesGridHtml_strict services)]"

definition renderServices_strict :: "world \<Rightarrow> state \<Rightarrow> state \<times> outcome" where
  "renderServices_strict w st =
     (let (services, st1) = loadData_strict w ''services'' st in
      if \<not> truthy services then (st1, Fulfilled)
      else renderServices_strict_body services st1)"

text \<open>
  \<^verbatim>\<open>renderContact\<close>, lines 144-178: the callback of \<^verbatim>\<open>Object.values(details).map\<close>,
  the markup for \<^verbatim>\<open>.contact-info\<close>, the markup for \<^verbatim>\<open>.contact-cta\<close> with its read of
  \<^verbatim>\<open>details.phone.link\<close>, the statements and the function.
\<close>

definition contactItemHtml_strict :: "jsval \<Rightarrow> string option" where
  \<open>contactItemHtml_strict item = do {
     icon \<leftarrow> field item ''icon'';
     label \<leftarrow> field item ''label'';
     link \<leftarrow> getProp item ''link'';
     shown \<leftarrow>
       (if truthy link
        then do { href \<leftarrow> toStr link;
                  v \<leftarrow> field item ''value'';
                  Some (''<a href="'' @ href @ ''">'' @ v @ ''</a>'') }
        else field item ''value'');
     Some (nl 12 @ ''<div class="contact-item">'' @
           nl 16 @ ''<span class="contact-icon">'' @ icon @ ''</span>'' @
           nl 16 @ ''<div>'' @
           nl 20 @ ''<h4>'' @ label @ ''</h4>'' @
           nl 20 @ ''<p>'' @ shown @ ''</p>'' @
           nl 16 @ ''</div>'' @
           nl 12 @ ''</div>'' @ nl 8) }\<close>

definition contactHtml_strict :: "jsval \<Rightarrow> string option" where
  "contactHtml_strict contact = do {
     details \<leftarrow> getProp contact ''details'';
     items \<leftarrow> objectValues details;
     mapJoin contactItemHtml_strict items }"

definition ctaHtml_strict :: "jsval \<Rightarrow> string option" where
  \<open>ctaHtml_strict contact = do {
     cta_text \<leftarrow> field contact ''cta_text'';
     details \<leftarrow> getProp contact ''details'';
     phone \<leftarrow> getProp details ''phone'';
     href \<leftarrow> field phone ''link'';
     cta_button \<leftarrow> field contact ''cta_button'';
     Some (nl 8 @ ''<p>'' @ cta_text @ ''</p>'' @
           nl 8 @ ''<a href="'' @ href @ ''" class="cta-button">'' @ cta_button @ ''</a>'' @
           nl 4) }\<close>

definition renderContact_strict_body :: "jsval \<Rightarrow> stmt" where
  "renderContact_strict_body contact =
     runAll
       [assignText ''#contact h2'' (getProp contact ''title''),
        assignHTML ''#contact .contact-info'' (contactHtml_strict contact),
        assignHTML ''#contact .contact-cta'' (ctaHtml_strict contact)]"

definition renderContact_strict :: "world \<Rightarrow> state \<Rightarrow> state \<times> outcome" where
  "renderContact_strict w st =
     (let (contact, st1) = loadData_strict w ''contact'' st in
      if \<not> truthy contact then (st1, Fulfilled)
      else renderContact_strict_body contact st1)"

section \<open>The renderers of \<^verbatim>\<open>src/unnamed/part_000\<close>\<close>

text \<open>
  \<^verbatim>\<open>renderAbout\<close>, lines 64-93. Each read has its fallback: \<^verbatim>\<open>f.icon || ''\<close>,
  \<^verbatim>\<open>Array.isArray(about.features) ? about.features : []\<close>; the block of features is
  left out when there is none (\<^verbatim>\<open>features.length ? ... : \<close>\<^verbatim>\<open>''\<close>).
\<close>

definition featureHtml_tolerant :: "jsval \<Rightarrow> string option" where
  \<open>featureHtml_tolerant f = do {
     icon \<leftarrow> fieldOr f ''icon'' [];
     text \<leftarrow> fieldOr f ''text'' [];
     Some (nl 12 @ ''<div class="feature">'' @
           nl 16 @ ''<span class="feature-icon">'' @ icon @ ''</span>'' @
           nl 16 @ ''<span>'' @ text @ ''</span>'' @
           nl 12 @ ''</div>'' @ nl 8) }\<close>

definition aboutTextHtml_tolerant :: "jsval \<Rightarrow> string option" where
  \<open>aboutTextHtml_tolerant about = do {
     paragraphs \<leftarrow> map_option arrayOrEmpty (getProp about ''paragraphs'');
     paragraphsHtml \<leftarrow>
       mapJoin (\<lambda>p. map_option (\<lambda>t. ''<p>'' @ t @ ''</p>'') (toStr p)) paragraphs;
     features \<leftarrow> map_option arrayOrEmpty (getProp about ''features'');
     featuresHtml \<leftarrow> mapJoin featureHtml_tolerant features;
     Some (nl 8 @ paragraphsHtml @
           nl 8 @ (if length features \<noteq> 0
                   then ''<div class="features">'' @ featuresHtml @ ''</div>'' else []) @
           nl 4) }\<close>

definition renderAbout_tolerant_body :: "jsval \<Rightarrow> stmt" where
  "renderAbout_tolerant_body about =
     runAll
       [assignText ''#about h2''
          (map_option (\<lambda>t. orElse t (JStr ''About Us'')) (getProp about ''title'')),
        assignHTML ''#about .about-text'' (aboutTextHtml_tolerant about)]"

definition renderAbout_tolerant :: "world \<Rightarrow> state \<Rightarrow> state \<times> outcome" where
  "renderAbout_tolerant w st =
     (let (about, st1) = loadData_tolerant w ''about'' st in
      if \<not> truthy about then (st1, Fulfilled)
      else renderAbout_tolerant_body about st1)"

text \<open>
  \<^verbatim>\<open>renderMenu\<close>, lines 98-132. The callback of \<^verbatim>\<open>categories.map\<close> reads
  \<^verbatim>\<open>category.items\<close> first, then composes the markup; a category without a name is
  headed \<^verbatim>\<open>Menu\<close>.
\<close>

definition dishHtml_tolerant :: "jsval \<Rightarrow> string option" where
  \<open>dishHtml_tolerant item = do {
     name \<leftarrow> fieldOr item ''name'' [];
     description \<leftarrow> fieldOr item ''description'' [];
     Some (nl 28 @ ''<li>'' @
           nl 32 @ ''<span class="dish-name">'' @ name @ ''</span>'' @
           nl 32 @ ''<span class="dish-desc">'' @ description @ ''</span>'' @
           nl 28 @ ''</li>'' @ nl 24) }\<close>

definition categoryHtml_tolerant :: "jsval \<Rightarrow> string option" where
  \<open>categoryHtml_tolerant category = do {
     items \<leftarrow> map_option arrayOrEmpty (getProp category ''items'');
     name \<leftarrow> fieldOr category ''name'' ''Menu'';
     itemsHtml \<leftarrow> mapJoin dishHtml_tolerant items;
     Some (nl 16 @ ''<div class="menu-category">'' @
           nl 20 @ ''<h3>'' @ name @ ''</h3>'' @
           nl 20 @ ''<ul>'' @
           nl 24 @ itemsHtml @
           nl 20 @ ''</ul>'' @
           nl 16 @ ''</div>'' @ nl 12) }\<close>

definition menuGridHtml_tolerant :: "jsval \<Rightarrow> string option" where
  "menuGridHtml_tolerant menu = do {
     categories \<leftarrow> map_option arrayOrEmpty (getProp menu ''categories'');
     mapJoin categoryHtml_tolerant categories }"

definition renderMenu_tolerant_body :: "jsval \<Rightarrow> stmt" where
  "renderMenu_tolerant_body menu =
     runAll
       [assignText ''#menu h2''
          (map_option (\<lambda>t. orElse t (JStr ''Our Menu'')) (getProp menu ''title'')),
        assignHTML ''#menu .menu-grid'' (menuGridHtml_tolerant menu),
        assignText ''#menu .menu-note''
          (map_option (\<lambda>t. orElse t (JStr [])) (getProp menu ''note''))]"

definition renderMenu_tolerant :: "world \<Rightarrow> state \<Rightarrow> state \<times> outcome" where
  "renderMenu_tolerant w st =
     (let (menu, st1) = loadData_tolerant w ''menu'' st in
      if \<not> truthy menu then (st1, Fulfilled)
      else renderMenu_tolerant_body menu st1)"

text \<open>
  \<^verbatim>\<open>renderServices\<close>, lines 137-158.
\<close>

definition serviceHtml_tolerant :: "jsval \<Rightarrow> string option" where
  \<open>serviceHtml_tolerant service = do {
     icon \<leftarrow> fieldOr service ''icon'' [];
     name \<leftarrow> fieldOr service ''name'' [];
     description \<leftarrow> fieldOr service ''description'' [];
     Some (nl 12 @ ''<div class="service-card">'' @
           nl 16 @ ''<div class="service-icon">'' @ icon @ ''</div>'' @
           nl 16 @ ''<h3>'' @ name @ ''</h3>'' @
           nl 16 @ ''<p>'' @ description @ ''</p>'' @
           nl 12 @ ''</div>'' @ nl 8) }\<close>

definition servicesGridHtml_tolerant :: "jsval \<Rightarrow> string option" where
  "servicesGridHtml_tolerant services = do {
     items \<leftarrow> map_option arrayOrEmpty (getProp services ''items'');
     mapJoin serviceHtml_tolerant items }"

definition renderServices_tolerant_body :: "jsval \<Rightarrow> stmt" where
  "renderServices_tolerant_body services =
     runAll
       [assignText ''#services h2''
          (map_option (\<lambda>t. orElse t (JStr ''Our Services'')) (getProp services ''title'')),
        assignHTML ''#services .services-grid'' (servicesGridHtml_tolerant services)]"

definition renderServices_tolerant :: "world \<Rightarrow> state \<Rightarrow> state \<times> outcome" where
  "renderServices_tolerant w st =
     (let (services, st1) = loadData_tolerant w ''services'' st in
      if \<not> truthy services then (st1, Fulfilled)
      else renderServices_tolerant_body services st1)"

text \<open>
  \<^verbatim>\<open>renderContact\<close>, lines 163-199.
\<close>

definition contactItemHtml_tolerant :: "jsval \<Rightarrow> string option" where
  \<open>contactItemHtml_tolerant item = do {
     icon \<leftarrow> fieldOr item ''icon'' [];
     label \<leftarrow> fieldOr item ''label'' [];
     link \<leftarrow> getProp item ''link'';
     shown \<leftarrow>
       (if truthy link
        then do { href \<leftarrow> toStr link;
                  v \<leftarrow> fieldOr item ''value'' [];
                  Some (''<a href="'' @ href @ ''">'' @ v @ ''</a>'') }
        else fieldOr item ''value'' []);
     Some (nl 12 @ ''<div class="contact-item">'' @
           nl 16 @ ''<span class="contact-icon">'' @ icon @ ''</span>'' @
           nl 16 @ ''<div>'' @
           nl 20 @ ''<h4>'' @ label @ ''</h4>'' @
           nl 20 @ ''<p>'' @ shown @ ''</p>'' @
           nl 16 @ ''</div>'' @
           nl 12 @ ''</div>'' @ nl 8) }\<close>

text \<open>\<^verbatim>\<open>contact.details || {}\<close>\<close>

definition details_tolerant :: "jsval \<Rightarrow> jsval option" where
  "details_tolerant contact =
     map_option (\<lambda>d. orElse d (JObj [])) (getProp contact ''details'')"

definition contactHtml_tolerant :: "jsval \<Rightarrow> string option" where
  "contactHtml_tolerant contact = do {
     details \<leftarrow> details_tolerant contact;
     detailItems \<leftarrow> objectValues details;
     mapJoin contactItemHtml_tolerant detailItems }"

text \<open>\<^verbatim>\<open>details.phone?.link || '#contact'\<close>\<close>

definition phoneLink :: "jsval \<Rightarrow> jsval option" where
  "phoneLink details = do {
     phone \<leftarrow> getProp details ''phone'';
     Some (orElse (if nullish phone then JUndefined else getPropOpt phone ''link'')
             (JStr ''#contact'')) }"

definition ctaHtml_tolerant :: "jsval \<Rightarrow> string option" where
  \<open>ctaHtml_tolerant contact = do {
     details \<leftarrow> details_tolerant contact;
     link \<leftarrow> phoneLink details;
     cta_text \<leftarrow> fieldOr contact ''cta_text'' [];
     href \<leftarrow> toStr link;
     cta_button \<leftarrow> fieldOr contact ''cta_button'' ''Contact Us'';
     Some (nl 8 @ ''<p>'' @ cta_text @ ''</p>'' @
           nl 8 @ ''<a href="'' @ href @ ''" class="cta-button">'' @ cta_button @ ''</a>'' @
           nl 4) }\<close>

definition renderContact_tolerant_body :: "jsval \<Rightarrow> stmt" where
  "renderContact_tolerant_body contact =
     runAll
       [assignText ''#contact h2''
          (map_option (\<lambda>t. orElse t (JStr ''Contact Us'')) (getProp contact ''title'')),
        assignHTML ''#contact .contact-info'' (contactHtml_tolerant contact),
        assignHTML ''#contact .contact-cta'' (ctaHtml_tolerant contact)]"

definition renderContact_tolerant :: "world \<Rightarrow> state \<Rightarrow> state \<times> outcome" where
  "renderContact_tolerant w st =
     (let (contact, st1) = loadData_tolerant w ''contact'' st in
      if \<not> truthy contact then (st1, Fulfilled)
      else renderContact_tolerant_body contact st1)"

section \<open>\<^verbatim>\<open>initNavigation\<close> and \<^verbatim>\<open>init\<close>, the same in both copies\<close>

text \<open>\<^verbatim>\<open>classList.add\<close> and \<^verbatim>\<open>classList.remove\<close> on the ordered set of class names.\<close>

definition classList_add :: "string \<Rightarrow> string list \<Rightarrow> string list" where
  "classList_add c cl = (if c \<in> set cl then cl else cl @ [c])"

definition classList_remove :: "string \<Rightarrow> string list \<Rightarrow> string list" where
  "classList_remove c cl = filter (\<lambda>x. x \<noteq> c) cl"

text \<open>
  The listener of \<^verbatim>\<open>scroll\<close> (lines 215-222 and 236-243), on \<^verbatim>\<open>window.scrollY\<close> and
  the class list of the element \<^verbatim>\<open>.navbar\<close>.
\<close>

definition scrollHandler :: "real \<Rightarrow> string list \<Rightarrow> string list" where
  "scrollHandler scrollY navbar =
     (if scrollY > 50 then classList_add ''scrolled'' navbar
      else classList_remove ''scrolled'' navbar)"

text \<open>
  \<^verbatim>\<open>initNavigation\<close> adds its listeners: to the toggle, to every link of the menu, to
  every same-page anchor, and to the window.
\<close>

definition initNavigation :: "state \<Rightarrow> state" where
  \<open>initNavigation st =
     st\<lparr>listeners := listeners st @
        [(''.nav-toggle'', ''click''), (''.nav-menu a'', ''click''),
         (''a[href^="#"]'', ''click''), (''window'', ''scroll'')]\<rparr>\<close>

type_synonym renderer = "world \<Rightarrow> state \<Rightarrow> state \<times> outcome"

definition renderers_strict :: "(string \<times> renderer) list" where
  "renderers_strict =
     [(''site'', renderSite loadData_strict), (''about'', renderAbout_strict),
      (''menu'', renderMenu_strict), (''services'', renderServices_strict),
      (''contact'', renderContact_strict)]"

definition renderers_tolerant :: "(string \<times> renderer) list" where
  "renderers_tolerant =
     [(''site'', renderSite loadData_tolerant), (''about'', renderAbout_tolerant),
      (''menu'', renderMenu_tolerant), (''services'', renderServices_tolerant),
      (''contact'', renderContact_tolerant)]"

text \<open>
  \<^verbatim>\<open>init\<close> starts the five renderers and waits for \<^verbatim>\<open>Promise.all\<close> of their promises.
  The event loop then runs one continuation at a time, in an order that the network
  decides. An execution is the list of its events: \<open>Settle i\<close>, renderer \<open>i\<close> runs to
  its end (its effects are those of the renderer run on the page as it is by then), and
  \<open>Join\<close>, the continuation of \<^verbatim>\<open>init\<close> runs. \<^verbatim>\<open>Promise.all\<close> is fulfilled once every
  promise is, and rejected as soon as one is; the \<^verbatim>\<open>catch\<close> of \<^verbatim>\<open>init\<close> logs the error
  (a \<^verbatim>\<open>TypeError\<close>, its message the engine's).
\<close>

datatype task = Pending | Settled outcome

datatype event = Settle nat | Join

record app =
  tasks :: "task list"
  page :: state
  joined :: bool

definition init_start :: "(string \<times> renderer) list \<Rightarrow> state \<Rightarrow> app" where
  "init_start rs st = \<lparr>tasks = replicate (length rs) Pending, page = st, joined = False\<rparr>"

definition init_continue :: "state \<Rightarrow> state" where
  "init_continue st =
     (let st1 = initNavigation st
      in st1\<lparr>console := console st1 @
           [ConsoleLog [LStr ''Uncle & Aunty Kitchen loaded successfully!'']]\<rparr>)"

definition init_catch :: "state \<Rightarrow> state" where
  "init_catch st = logError [LStr ''Error initializing app:'', LErr (TypeError [])] st"

fun init_step :: "(string \<times> renderer) list \<Rightarrow> world \<Rightarrow> event \<Rightarrow> app \<Rightarrow> app option" where
  "init_step rs w (Settle i) a =
     (if i < length rs \<and> i < length (tasks a) \<and> tasks a ! i = Pending
      then (case snd (rs ! i) w (page a) of
              (st', out) \<Rightarrow> Some (a\<lparr>tasks := (tasks a)[i := Settled out], page := st'\<rparr>))
      else None)"
| "init_step rs w Join a =
     (if joined a then None
      else if list_all (\<lambda>t. t = Settled Fulfilled) (tasks a)
      then Some (a\<lparr>page := init_continue (page a), joined := True\<rparr>)
      else if Settled Rejected \<in> set (tasks a)
      then Some (a\<lparr>page := init_catch (page a), joined := True\<rparr>)
      else None)"

fun init_run :: "(string \<times> renderer) list \<Rightarrow> world \<Rightarrow> event list \<Rightarrow> app \<Rightarrow> app option" where
  "init_run rs w [] a = Some a"
| "init_run rs w (e # es) a =
     (case init_step rs w e a of None \<Rightarrow> None | Some a' \<Rightarrow> init_run rs w es a')"

definition init :: "(string \<times> renderer) list \<Rightarrow> world \<Rightarrow> event list \<Rightarrow> state \<Rightarrow> app option" where
  "init rs w es st = init_run rs w es (init_start rs st)"

section \<open>Example pages and networks\<close>

definition initial_state :: "(string \<Rightarrow> content) \<Rightarrow> state" where
  "initial_state skeleton =
     \<lparr>dataCache = [], dom = skeleton, console = [], requests = [], listeners = []\<rparr>"

definition blank :: "string \<Rightarrow> content" where
  "blank sel = TextContent []"

text \<open>A network on which every document is \<open>doc\<close>, and one that is down.\<close>

definition serving :: "jsval \<Rightarrow> world" where
  "serving doc = \<lparr>fetch = (\<lambda>u. Response True (Body ''ok'')), JSON_parse = (\<lambda>t. Inr doc)\<rparr>"

definition offline :: world where
  "offline = \<lparr>fetch = (\<lambda>u. FetchRejected (TypeError ''Failed to fetch'')),
              JSON_parse = (\<lambda>t. Inl ''Unexpected end of JSON input'')\<rparr>"

section \<open>Conditions on the surroundings of a call\<close>

text \<open>
  The retrieval fails (the request is rejected, the status is not a success, or the body
  cannot be read), or the content is retrieved and fails to parse, or it parses to a value.
\<close>

definition transport_fails :: "world \<Rightarrow> string \<Rightarrow> bool" where
  "transport_fails w filename =
     (case fetch w (url_of filename) of
        FetchRejected e \<Rightarrow> True
      | Response ok b \<Rightarrow> \<not> ok \<or> (case b of BodyError e \<Rightarrow> True | Body text \<Rightarrow> False))"

definition parse_fails :: "world \<Rightarrow> string \<Rightarrow> bool" where
  "parse_fails w filename =
     (case fetch w (url_of filename) of
        FetchRejected e \<Rightarrow> False
      | Response ok b \<Rightarrow>
          ok \<and> (case b of BodyError e \<Rightarrow> False | Body text \<Rightarrow> isl (JSON_parse w text)))"

definition parses_to :: "world \<Rightarrow> string \<Rightarrow> jsval option" where
  "parses_to w filename =
     (case fetch w (url_of filename) of
        FetchRejected e \<Rightarrow> None
      | Response ok b \<Rightarrow>
          if ok then (case b of BodyError e \<Rightarrow> None
                      | Body text \<Rightarrow> (case JSON_parse w text of Inl m \<Rightarrow> None | Inr v \<Rightarrow> Some v))
          else None)"

text \<open>The read \<^verbatim>\<open>dataCache[filename]\<close> is falsy, so that the call goes to the network.\<close>

definition cache_miss :: "state \<Rightarrow> string \<Rightarrow> bool" where
  "cache_miss st filename = (\<not> truthy (dataCache_get (dataCache st) filename))"

text \<open>What was written to the console between two states.\<close>

definition logged :: "state \<Rightarrow> state \<Rightarrow> console_call list" where
  "logged st st' = drop (length (console st)) (console st')"

text \<open>
  A network on which every resource is malformed, and one on which none is found.
\<close>

definition malformed :: world where
  "malformed = \<lparr>fetch = (\<lambda>u. Response True (Body ''{title}'')),
                JSON_parse = (\<lambda>t. Inl ''Unexpected token t in JSON at position 1'')\<rparr>"

definition unavailable :: world where
  "unavailable = \<lparr>fetch = (\<lambda>u. Response False (Body ''Not Found'')),
                JSON_parse = (\<lambda>t. Inl ''Unexpected token N in JSON at position 0'')\<rparr>"

section \<open>Auxiliary notions for the proofs\<close>

text \<open>
  A statement that only writes to elements, and does so in the same way whatever the rest
  of the state is.
\<close>

definition dom_only :: "stmt \<Rightarrow> bool" where
  "dom_only s =
     (\<forall>st st2. snd (s st) = snd (s st2) \<and>
        fst (s st) = st\<lparr>dom := dom (fst (s st))\<rparr> \<and>
        (dom st = dom st2 \<longrightarrow> dom (fst (s st)) = dom (fst (s st2))))"

text \<open>
  What a call of \<^verbatim>\<open>loadData\<close> can see of the cache: the truthy entries. Two states
  with the same view and the same elements are the same page to every renderer.
\<close>

definition cache_view :: "(string \<times> jsval) list \<Rightarrow> string \<Rightarrow> jsval option" where
  "cache_view c k = (if truthy (dataCache_get c k) then Some (dataCache_get c k) else None)"

definition same_view :: "state \<Rightarrow> state \<Rightarrow> bool" where
  "same_view st st2 =
     (dom st = dom st2 \<and> cache_view (dataCache st) = cache_view (dataCache st2))"

text \<open>The shape that the renderers share: load, return on a falsy document, render.\<close>

definition guarded :: "loader \<Rightarrow> string \<Rightarrow> (jsval \<Rightarrow> stmt) \<Rightarrow> renderer" where
  "guarded loadData name body w st =
     (let (doc, st1) = loadData w name st in
      if \<not> truthy doc then (st1, Fulfilled) else body doc st1)"

definition bodies_strict :: "(string \<times> (jsval \<Rightarrow> stmt)) list" where
  "bodies_strict =
     [(''site'', renderSite_body), (''about'', renderAbout_strict_body),
      (''menu'', renderMenu_strict_body), (''services'', renderServices_strict_body),
      (''contact'', renderContact_strict_body)]"

definition bodies_tolerant :: "(string \<times> (jsval \<Rightarrow> stmt)) list" where
  "bodies_tolerant =
     [(''site'', renderSite_body), (''about'', renderAbout_tolerant_body),
      (''menu'', renderMenu_tolerant_body), (''services'', renderServices_tolerant_body),
      (''contact'', renderContact_tolerant_body)]"

text \<open>
  The invariant of an execution of \<^verbatim>\<open>init\<close>: listeners are on the page only when
  every renderer is fulfilled, and none before the continuation of \<^verbatim>\<open>init\<close> has run.
\<close>

definition wiring_inv :: "app \<Rightarrow> bool" where
  "wiring_inv a =
     ((listeners (page a) \<noteq> [] \<longrightarrow> list_all (\<lambda>t. t = Settled Fulfilled) (tasks a)) \<and>
      (\<not> joined a \<longrightarrow> listeners (page a) = []))"

section \<open>Documents with a field set, for comparison\<close>

text \<open>The record \<open>kvs\<close> with the field \<open>k\<close> set to \<open>v\<close>.\<close>

definition withField :: "string \<Rightarrow> jsval \<Rightarrow> (string \<times> jsval) list \<Rightarrow> jsval" where
  "withField k v kvs = JObj (AList.update k v kvs)"

text \<open>
  What \<^verbatim>\<open>contact.details\<close> may be instead of a mapping and still give no entry:
  nothing, \<^verbatim>\<open>null\<close>, a boolean, a number or the empty string.
\<close>

definition notACollection :: "jsval \<Rightarrow> bool" where
  "notACollection v =
     (case v of
        JUndefined \<Rightarrow> True | JNull \<Rightarrow> True | JBool b \<Rightarrow> True | JNum n \<Rightarrow> True
      | JStr s \<Rightarrow> s = [] | JArr xs \<Rightarrow> False | JObj kvs \<Rightarrow> False | JBuiltin f \<Rightarrow> False)"

text \<open>The field \<open>k\<close> of the record is absent, \<^verbatim>\<open>null\<close> or otherwise falsy.\<close>

definition blankField :: "(string \<times> jsval) list \<Rightarrow> string \<Rightarrow> bool" where
  "blankField kvs k = (\<not> truthy (getPropOpt (JObj kvs) k))"

text \<open>
  The text that \<^verbatim>\<open>${item.k || d}\<close> puts into the markup: the fallback \<open>d\<close> when the
  field is absent, \<^verbatim>\<open>null\<close> or otherwise falsy, and the field's own text otherwise.
\<close>

definition resolved :: "(string \<times> jsval) list \<Rightarrow> string \<Rightarrow> string \<Rightarrow> string option" where
  "resolved kvs k d =
     (if blankField kvs k then Some d else toStr (getPropOpt (JObj kvs) k))"

text \<open>
  The value of \<^verbatim>\<open>details.phone.link\<close> in a contact document, \<^verbatim>\<open>undefined\<close> when
  \<^verbatim>\<open>details\<close>, the \<^verbatim>\<open>phone\<close> entry or its \<^verbatim>\<open>link\<close> is absent.
\<close>

definition nestedPhoneLink :: "jsval \<Rightarrow> jsval" where
  "nestedPhoneLink contact =
     getPropOpt (getPropOpt (getPropOpt contact ''details'') ''phone'') ''link''"

section \<open>Properties of the accessor\<close>

lemma dataCache_get_update:
  "dataCache_get (AList.update k v c) k = v"
  by (simp add: dataCache_get_def update_conv')

lemma loadData_strict_truthy_cached:
  assumes "loadData_strict w filename st = (v, st')" and "truthy v"
  shows "dataCache_get (dataCache st') filename = v"
  using assms
  by (auto simp: loadData_strict_def Let_def logError_def caught_def dataCache_get_update
           split: if_splits fetched.splits body.splits sum.splits)

lemma loadData_tolerant_truthy_cached:
  assumes "loadData_tolerant w filename st = (v, st')" and "truthy v"
  shows "dataCache_get (dataCache st') filename = v"
  using assms
  by (auto simp: loadData_tolerant_def Let_def logError_def caught_def dataCache_get_update
           split: if_splits fetched.splits body.splits sum.splits)

lemma loadData_strict_hit:
  "truthy (dataCache_get (dataCache st) filename) \<Longrightarrow>
   loadData_strict w filename st = (dataCache_get (dataCache st) filename, st)"
  by (simp add: loadData_strict_def)

lemma loadData_tolerant_hit:
  "truthy (dataCache_get (dataCache st) filename) \<Longrightarrow>
   loadData_tolerant w filename st = (dataCache_get (dataCache st) filename, st)"
  by (simp add: loadData_tolerant_def)

text \<open>
  C1. After a call of \<^verbatim>\<open>loadData\<close> has returned a document (a truthy value) for a
  name, a second call with the same name, whatever the network does by then, returns the
  same value, which is the cached one, and leaves the whole state as it was: it requests
  nothing and logs nothing. This holds in both copies of the script.
\<close>

theorem loadData_second_call_cached:
  "(loadData_tolerant w filename st = (v, st') \<and> truthy v \<longrightarrow>
      loadData_tolerant w' filename st' = (v, st') \<and>
      requests (snd (loadData_tolerant w' filename st')) = requests st' \<and>
      dataCache_get (dataCache st') filename = v) \<and>
   (loadData_strict w filename st = (v, st') \<and> truthy v \<longrightarrow>
      loadData_strict w' filename st' = (v, st') \<and>
      requests (snd (loadData_strict w' filename st')) = requests st' \<and>
      dataCache_get (dataCache st') filename = v)"
  using loadData_tolerant_truthy_cached [of w filename st v st']
        loadData_strict_truthy_cached [of w filename st v st']
  by (auto simp: loadData_tolerant_hit loadData_strict_hit)

theorem loadData_second_call_cached_witness:
  "loadData_tolerant (serving (JObj [(''name'', JStr ''UAK'')])) ''site'' (initial_state blank) =
     (JObj [(''name'', JStr ''UAK'')],
      \<lparr>dataCache = [(''site'', JObj [(''name'', JStr ''UAK'')])], dom = blank,
       console = [], requests = [''data/site.json''], listeners = []\<rparr>) \<and>
   truthy (JObj [(''name'', JStr ''UAK'')]) \<and>
   loadData_tolerant offline ''site''
       \<lparr>dataCache = [(''site'', JObj [(''name'', JStr ''UAK'')])], dom = blank,
        console = [], requests = [''data/site.json''], listeners = []\<rparr> =
     (JObj [(''name'', JStr ''UAK'')],
      \<lparr>dataCache = [(''site'', JObj [(''name'', JStr ''UAK'')])], dom = blank,
       console = [], requests = [''data/site.json''], listeners = []\<rparr>) \<and>
   loadData_strict (serving (JObj [(''name'', JStr ''UAK'')])) ''site'' (initial_state blank) =
     (JObj [(''name'', JStr ''UAK'')],
      \<lparr>dataCache = [(''site'', JObj [(''name'', JStr ''UAK'')])], dom = blank,
       console = [], requests = [''data/site.json''], listeners = []\<rparr>) \<and>
   loadData_strict offline ''site''
       \<lparr>dataCache = [(''site'', JObj [(''name'', JStr ''UAK'')])], dom = blank,
        console = [], requests = [''data/site.json''], listeners = []\<rparr> =
     (JObj [(''name'', JStr ''UAK'')],
      \<lparr>dataCache = [(''site'', JObj [(''name'', JStr ''UAK'')])], dom = blank,
       console = [], requests = [''data/site.json''], listeners = []\<rparr>)"
proof -
  let ?doc = "JObj [(''name'', JStr ''UAK'')]"
  let ?s1 = "\<lparr>dataCache = [(''site'', ?doc)], dom = blank,
       console = [], requests = [''data/site.json''], listeners = []\<rparr>"
  have t: "loadData_tolerant (serving ?doc) ''site'' (initial_state blank) = (?doc, ?s1)"
    by (simp add: loadData_tolerant_def serving_def initial_state_def dataCache_get_def
          objectPrototypeKeys_def url_of_def)
  have s: "loadData_strict (serving ?doc) ''site'' (initial_state blank) = (?doc, ?s1)"
    by (simp add: loadData_strict_def serving_def initial_state_def dataCache_get_def
          objectPrototypeKeys_def url_of_def)
  have v: "truthy ?doc" by simp
  show ?thesis
    using t s v
      loadData_second_call_cached [of "serving ?doc" "''site''" "initial_state blank" ?doc ?s1 offline]
    by blast
qed

lemma loadData_tolerant_fail:
  assumes "cache_miss st f" "transport_fails w f \<or> parse_fails w f"
  shows "fst (loadData_tolerant w f st) = JNull"
    "dataCache (snd (loadData_tolerant w f st)) = dataCache st"
    "requests (snd (loadData_tolerant w f st)) = requests st @ [url_of f]"
    "cache_miss (snd (loadData_tolerant w f st)) f"
  using assms
  by (auto simp: loadData_tolerant_def cache_miss_def transport_fails_def parse_fails_def
        caught_def logError_def Let_def split: fetched.splits body.splits sum.splits)

lemma loadData_strict_fail:
  assumes "cache_miss st f" "transport_fails w f \<or> parse_fails w f"
  shows "fst (loadData_strict w f st) = JNull"
    "dataCache (snd (loadData_strict w f st)) = dataCache st"
    "requests (snd (loadData_strict w f st)) = requests st @ [url_of f]"
    "cache_miss (snd (loadData_strict w f st)) f"
  using assms
  by (auto simp: loadData_strict_def cache_miss_def transport_fails_def parse_fails_def
        caught_def logError_def Let_def split: fetched.splits body.splits sum.splits)

lemma loadData_tolerant_miss_requests:
  "cache_miss st f \<Longrightarrow> requests (snd (loadData_tolerant w f st)) = requests st @ [url_of f]"
  by (auto simp: loadData_tolerant_def cache_miss_def
        caught_def logError_def Let_def split: fetched.splits body.splits sum.splits)

lemma loadData_strict_miss_requests:
  "cache_miss st f \<Longrightarrow> requests (snd (loadData_strict w f st)) = requests st @ [url_of f]"
  by (auto simp: loadData_strict_def cache_miss_def
        caught_def logError_def Let_def split: fetched.splits body.splits sum.splits)

text \<open>
  C2. When a call of \<^verbatim>\<open>loadData\<close> goes to the network and the retrieval or the parse
  fails, the call returns \<^verbatim>\<open>null\<close>, the cache is what it was (nothing is stored under
  the name), and the next call for the same name, whatever the network does by then,
  requests the resource again. This holds in both copies of the script.
\<close>

theorem loadData_failure_not_cached:
  "cache_miss st f \<and> (transport_fails w f \<or> parse_fails w f) \<longrightarrow>
     (fst (loadData_tolerant w f st) = JNull \<and>
      dataCache (snd (loadData_tolerant w f st)) = dataCache st \<and>
      requests (snd (loadData_tolerant w f st)) = requests st @ [url_of f] \<and>
      requests (snd (loadData_tolerant w' f (snd (loadData_tolerant w f st)))) =
        requests st @ [url_of f, url_of f]) \<and>
     (fst (loadData_strict w f st) = JNull \<and>
      dataCache (snd (loadData_strict w f st)) = dataCache st \<and>
      requests (snd (loadData_strict w f st)) = requests st @ [url_of f] \<and>
      requests (snd (loadData_strict w' f (snd (loadData_strict w f st)))) =
        requests st @ [url_of f, url_of f])"
  by (simp add: loadData_tolerant_fail loadData_strict_fail
        loadData_tolerant_miss_requests loadData_strict_miss_requests)

theorem loadData_failure_not_cached_witness:
  "cache_miss (initial_state blank) ''menu'' \<and>
   (transport_fails offline ''menu'' \<or> parse_fails offline ''menu'') \<and>
   fst (loadData_tolerant offline ''menu'' (initial_state blank)) = JNull \<and>
   dataCache (snd (loadData_tolerant offline ''menu'' (initial_state blank))) = [] \<and>
   requests (snd (loadData_tolerant (serving (JObj [])) ''menu''
       (snd (loadData_tolerant offline ''menu'' (initial_state blank))))) =
     [''data/menu.json'', ''data/menu.json''] \<and>
   fst (loadData_strict offline ''menu'' (initial_state blank)) = JNull \<and>
   dataCache (snd (loadData_strict offline ''menu'' (initial_state blank))) = [] \<and>
   requests (snd (loadData_strict (serving (JObj [])) ''menu''
       (snd (loadData_strict offline ''menu'' (initial_state blank))))) =
     [''data/menu.json'', ''data/menu.json'']"
proof -
  have h: "cache_miss (initial_state blank) ''menu'' \<and>
      (transport_fails offline ''menu'' \<or> parse_fails offline ''menu'')"
    by (simp add: cache_miss_def initial_state_def dataCache_get_def objectPrototypeKeys_def
          transport_fails_def offline_def)
  show ?thesis
    using h loadData_failure_not_cached
      [of "initial_state blank" "''menu''" offline "serving (JObj [])"]
    by (simp add: initial_state_def url_of_def)
qed

lemma loadData_tolerant_transport:
  assumes "cache_miss st f" "transport_fails w f"
  shows "\<exists>e. logged st (snd (loadData_tolerant w f st)) =
           [ConsoleError [LStr (''Error loading '' @ f @ '':''), LErr e]]"
  using assms
  by (auto simp: loadData_tolerant_def cache_miss_def transport_fails_def logged_def
        caught_def logError_def Let_def split: fetched.splits body.splits sum.splits)

lemma loadData_strict_transport:
  assumes "cache_miss st f" "transport_fails w f"
  shows "\<exists>e. logged st (snd (loadData_strict w f st)) =
           [ConsoleError [LStr (''Error loading '' @ f @ '':''), LErr e]]"
  using assms
  by (auto simp: loadData_strict_def cache_miss_def transport_fails_def logged_def
        caught_def logError_def Let_def split: fetched.splits body.splits sum.splits)

lemma loadData_tolerant_parse_error:
  assumes "cache_miss st f" "fetch w (url_of f) = Response True (Body text)"
    "JSON_parse w text = Inl msg"
  shows "loadData_tolerant w f st =
     (JNull, st\<lparr>requests := requests st @ [url_of f],
               console := console st @
                 [ConsoleError [LStr (''JSON syntax error in '' @ f @ ''.json:''), LStr msg],
                  ConsoleError [LStr ''Check for missing commas, extra commas, or unclosed brackets'']]\<rparr>)"
  using assms
  by (simp add: loadData_tolerant_def cache_miss_def logError_def Let_def)

lemma loadData_strict_parse_error:
  assumes "cache_miss st f" "fetch w (url_of f) = Response True (Body text)"
    "JSON_parse w text = Inl msg"
  shows "loadData_strict w f st =
     (JNull, st\<lparr>requests := requests st @ [url_of f],
               console := console st @
                 [ConsoleError [LStr (''Error loading '' @ f @ '':''), LErr (SyntaxError msg)]]\<rparr>)"
  using assms
  by (simp add: loadData_strict_def cache_miss_def logError_def caught_def Let_def)

text \<open>
  What both copies log. When the resource is retrieved and its content fails to parse,
  \<^verbatim>\<open>loadData\<close> returns \<^verbatim>\<open>null\<close> in both. The copy \<^verbatim>\<open>part_000\<close> then logs two
  entries, the first naming the resource with the parser's message, the second the hint
  for the author; a failure of the transport logs one entry \<^verbatim>\<open>Error loading <name>:\<close>
  with the error, and shares no entry with them. The copy \<^verbatim>\<open>src/js/app.js\<close> logs the
  one entry \<^verbatim>\<open>Error loading <name>:\<close> with the \<^verbatim>\<open>SyntaxError\<close>, under the text that
  a failure of the transport has too, and no hint.
\<close>

theorem parse_failure_diagnostics:
  "cache_miss st f \<and> fetch w (url_of f) = Response True (Body text) \<and>
   JSON_parse w text = Inl msg \<longrightarrow>
     fst (loadData_tolerant w f st) = JNull \<and>
     logged st (snd (loadData_tolerant w f st)) =
       [ConsoleError [LStr (''JSON syntax error in '' @ f @ ''.json:''), LStr msg],
        ConsoleError [LStr ''Check for missing commas, extra commas, or unclosed brackets'']] \<and>
     (\<forall>w2. transport_fails w2 f \<longrightarrow>
        (\<exists>e. logged st (snd (loadData_tolerant w2 f st)) =
           [ConsoleError [LStr (''Error loading '' @ f @ '':''), LErr e]]) \<and>
        set (logged st (snd (loadData_tolerant w f st))) \<inter>
        set (logged st (snd (loadData_tolerant w2 f st))) = {}) \<and>
     fst (loadData_strict w f st) = JNull \<and>
     logged st (snd (loadData_strict w f st)) =
       [ConsoleError [LStr (''Error loading '' @ f @ '':''), LErr (SyntaxError msg)]] \<and>
     (\<forall>w2. transport_fails w2 f \<longrightarrow>
        (\<exists>e. logged st (snd (loadData_strict w2 f st)) =
           [ConsoleError [LStr (''Error loading '' @ f @ '':''), LErr e]]))"
proof (intro impI, elim conjE)
  assume m: "cache_miss st f" and r: "fetch w (url_of f) = Response True (Body text)"
    and p: "JSON_parse w text = Inl msg"
  have t: "logged st (snd (loadData_tolerant w f st)) =
       [ConsoleError [LStr (''JSON syntax error in '' @ f @ ''.json:''), LStr msg],
        ConsoleError [LStr ''Check for missing commas, extra commas, or unclosed brackets'']]"
    by (simp add: loadData_tolerant_parse_error [OF m r p] logged_def)
  have s: "logged st (snd (loadData_strict w f st)) =
       [ConsoleError [LStr (''Error loading '' @ f @ '':''), LErr (SyntaxError msg)]]"
    by (simp add: loadData_strict_parse_error [OF m r p] logged_def)
  have d: "set (logged st (snd (loadData_tolerant w f st))) \<inter>
        set (logged st (snd (loadData_tolerant w2 f st))) = {}"
    if "transport_fails w2 f" for w2
    using loadData_tolerant_transport [OF m that] by (auto simp: t)
  show "fst (loadData_tolerant w f st) = JNull \<and>
     logged st (snd (loadData_tolerant w f st)) =
       [ConsoleError [LStr (''JSON syntax error in '' @ f @ ''.json:''), LStr msg],
        ConsoleError [LStr ''Check for missing commas, extra commas, or unclosed brackets'']] \<and>
     (\<forall>w2. transport_fails w2 f \<longrightarrow>
        (\<exists>e. logged st (snd (loadData_tolerant w2 f st)) =
           [ConsoleError [LStr (''Error loading '' @ f @ '':''), LErr e]]) \<and>
        set (logged st (snd (loadData_tolerant w f st))) \<inter>
        set (logged st (snd (loadData_tolerant w2 f st))) = {}) \<and>
     fst (loadData_strict w f st) = JNull \<and>
     logged st (snd (loadData_strict w f st)) =
       [ConsoleError [LStr (''Error loading '' @ f @ '':''), LErr (SyntaxError msg)]] \<and>
     (\<forall>w2. transport_fails w2 f \<longrightarrow>
        (\<exists>e. logged st (snd (loadData_strict w2 f st)) =
           [ConsoleError [LStr (''Error loading '' @ f @ '':''), LErr e]]))"
    using t s d loadData_tolerant_transport [OF m] loadData_strict_transport [OF m]
    by (simp add: loadData_tolerant_parse_error [OF m r p] loadData_strict_parse_error [OF m r p])
qed

theorem parse_failure_diagnostics_witness:
  "cache_miss (initial_state blank) ''menu'' \<and>
   fetch malformed (url_of ''menu'') = Response True (Body ''{title}'') \<and>
   JSON_parse malformed ''{title}'' = Inl ''Unexpected token t in JSON at position 1'' \<and>
   transport_fails unavailable ''menu'' \<and>
   logged (initial_state blank) (snd (loadData_tolerant malformed ''menu'' (initial_state blank))) =
     [ConsoleError [LStr ''JSON syntax error in menu.json:'',
        LStr ''Unexpected token t in JSON at position 1''],
      ConsoleError [LStr ''Check for missing commas, extra commas, or unclosed brackets'']] \<and>
   set (logged (initial_state blank) (snd (loadData_tolerant malformed ''menu'' (initial_state blank)))) \<inter>
   set (logged (initial_state blank) (snd (loadData_tolerant unavailable ''menu'' (initial_state blank)))) = {}"
proof -
  have h: "cache_miss (initial_state blank) ''menu'' \<and>
      fetch malformed (url_of ''menu'') = Response True (Body ''{title}'') \<and>
      JSON_parse malformed ''{title}'' = Inl ''Unexpected token t in JSON at position 1''"
    by (simp add: cache_miss_def initial_state_def dataCache_get_def objectPrototypeKeys_def
          malformed_def)
  have u: "transport_fails unavailable ''menu''"
    by (simp add: transport_fails_def unavailable_def)
  note c = parse_failure_diagnostics
      [of "initial_state blank" "''menu''" malformed "''{title}''"
          "''Unexpected token t in JSON at position 1''", rule_format, OF h]
  from c u have d:
    "set (logged (initial_state blank) (snd (loadData_tolerant malformed ''menu'' (initial_state blank)))) \<inter>
     set (logged (initial_state blank) (snd (loadData_tolerant unavailable ''menu'' (initial_state blank)))) = {}"
    by blast
  show ?thesis using h u c d by simp
qed

text \<open>
  C7 asks for a diagnostic of a parse failure that names the resource, guides the author
  and differs from that of a transport failure. \<^verbatim>\<open>loadData\<close> of \<^verbatim>\<open>src/js/app.js\<close>
  gives none: a malformed \<^verbatim>\<open>menu.json\<close> and a missing one are each logged as one entry
  under the same text \<^verbatim>\<open>Error loading menu:\<close>, and the author is given no hint.
\<close>

theorem loadData_strict_parse_failure_log:
  "logged (initial_state blank) (snd (loadData_strict malformed ''menu'' (initial_state blank))) =
     [ConsoleError [LStr ''Error loading menu:'',
        LErr (SyntaxError ''Unexpected token t in JSON at position 1'')]] \<and>
   logged (initial_state blank) (snd (loadData_strict unavailable ''menu'' (initial_state blank))) =
     [ConsoleError [LStr ''Error loading menu:'', LErr (JsError ''Failed to load menu'')]]"
  by (simp add: loadData_strict_def malformed_def unavailable_def initial_state_def logged_def
        dataCache_get_def objectPrototypeKeys_def url_of_def caught_def logError_def)

section \<open>Properties of the renderers\<close>

lemma dom_only_assignText: "dom_only (assignText sel v)"
  by (cases "Option.bind v domString") (simp_all add: dom_only_def assignText_def)

lemma dom_only_assignHTML: "dom_only (assignHTML sel m)"
  by (cases m) (simp_all add: dom_only_def assignHTML_def)

lemma runAll_Cons_Fulfilled:
  "snd (s st) = Fulfilled \<Longrightarrow> runAll (s # ss) st = runAll ss (fst (s st))"
  by (cases "s st") simp

lemma runAll_Cons_Rejected:
  "snd (s st) = Rejected \<Longrightarrow> runAll (s # ss) st = s st"
  by (cases "s st") simp

lemma dom_only_runAll: "(\<forall>s \<in> set ss. dom_only s) \<Longrightarrow> dom_only (runAll ss)"
proof (induction ss)
  case Nil
  show ?case by (simp add: dom_only_def)
next
  case (Cons s ss)
  then have s: "dom_only s" and r: "dom_only (runAll ss)" by simp_all
  from s obtain out where out: "\<And>st. snd (s st) = out"
    unfolding dom_only_def by metis
  show ?case
  proof (cases out)
    case Rejected
    then have "snd (s st) = Rejected" for st
      by (simp add: out)
    then have "runAll (s # ss) st = s st" for st
      by (rule runAll_Cons_Rejected)
    then have "runAll (s # ss) = s"
      by (rule ext)
    with s show ?thesis by simp
  next
    case Fulfilled
    then have f: "snd (s st) = Fulfilled" for st
      by (simp add: out)
    have e: "runAll (s # ss) st = runAll ss (fst (s st))" for st
      using f [of st] by (rule runAll_Cons_Fulfilled)
    show ?thesis
      unfolding dom_only_def
    proof (intro allI conjI impI)
      fix st st2
      show "snd (runAll (s # ss) st) = snd (runAll (s # ss) st2)"
        unfolding e using r unfolding dom_only_def by blast
      define m where "m = fst (s st)"
      have b: "m = st\<lparr>dom := dom m\<rparr>"
        unfolding m_def using s unfolding dom_only_def by blast
      have c: "m\<lparr>dom := D\<rparr> = st\<lparr>dom := D\<rparr>" for D
        by (subst b) simp
      have "fst (runAll ss m) = m\<lparr>dom := dom (fst (runAll ss m))\<rparr>"
        using r unfolding dom_only_def by blast
      then have "fst (runAll ss m) = st\<lparr>dom := dom (fst (runAll ss m))\<rparr>"
        by (simp only: c)
      then show "fst (runAll (s # ss) st) =
          st\<lparr>dom := dom (fst (runAll (s # ss) st))\<rparr>"
        unfolding e m_def .
      assume "dom st = dom st2"
      then have "dom (fst (s st)) = dom (fst (s st2))"
        using s unfolding dom_only_def by blast
      then show "dom (fst (runAll (s # ss) st)) = dom (fst (runAll (s # ss) st2))"
        unfolding e using r unfolding dom_only_def by blast
    qed
  qed
qed

lemmas body_defs =
  renderSite_body_def renderAbout_strict_body_def renderMenu_strict_body_def
  renderServices_strict_body_def renderContact_strict_body_def
  renderAbout_tolerant_body_def renderMenu_tolerant_body_def
  renderServices_tolerant_body_def renderContact_tolerant_body_def

lemma dom_only_bodies:
  "dom_only (renderSite_body doc)"
  "dom_only (renderAbout_strict_body doc)"
  "dom_only (renderMenu_strict_body doc)"
  "dom_only (renderServices_strict_body doc)"
  "dom_only (renderContact_strict_body doc)"
  "dom_only (renderAbout_tolerant_body doc)"
  "dom_only (renderMenu_tolerant_body doc)"
  "dom_only (renderServices_tolerant_body doc)"
  "dom_only (renderContact_tolerant_body doc)"
  by (simp_all add: body_defs dom_only_runAll dom_only_assignText dom_only_assignHTML)

lemma dom_only_listed:
  "(name, body) \<in> set bodies_strict \<union> set bodies_tolerant \<Longrightarrow> dom_only (body doc)"
  by (auto simp: bodies_strict_def bodies_tolerant_def dom_only_bodies)

lemma renderers_strict_guarded:
  "renderers_strict = map (\<lambda>(name, body). (name, guarded loadData_strict name body)) bodies_strict"
  unfolding renderers_strict_def bodies_strict_def guarded_def renderSite_def
    renderAbout_strict_def renderMenu_strict_def renderServices_strict_def
    renderContact_strict_def
  by simp

lemma renderers_tolerant_guarded:
  "renderers_tolerant = map (\<lambda>(name, body). (name, guarded loadData_tolerant name body)) bodies_tolerant"
  unfolding renderers_tolerant_def bodies_tolerant_def guarded_def renderSite_def
    renderAbout_tolerant_def renderMenu_tolerant_def renderServices_tolerant_def
    renderContact_tolerant_def
  by simp

lemma dataCache_get_update_other:
  "k \<noteq> f \<Longrightarrow> dataCache_get (AList.update f v c) k = dataCache_get c k"
  by (simp add: dataCache_get_def update_conv')

lemma cache_view_update:
  "cache_view (AList.update f v c) = (cache_view c)(f := if truthy v then Some v else None)"
  by (auto simp: cache_view_def fun_eq_iff dataCache_get_update dataCache_get_update_other)

lemma cache_miss_view: "cache_miss st f = (cache_view (dataCache st) f = None)"
  by (simp add: cache_miss_def cache_view_def)

lemma cache_hit_view:
  "\<not> cache_miss st f \<Longrightarrow> cache_view (dataCache st) f = Some (dataCache_get (dataCache st) f)"
  by (simp add: cache_miss_def cache_view_def)

lemma same_view_refl: "same_view st st"
  by (simp add: same_view_def)

lemma same_view_miss:
  "same_view st st2 \<Longrightarrow> cache_miss st f = cache_miss st2 f"
  by (simp add: same_view_def cache_miss_view)

lemma same_view_hit:
  assumes "same_view st st2" "\<not> cache_miss st f"
  shows "dataCache_get (dataCache st) f = dataCache_get (dataCache st2) f"
proof -
  have "\<not> cache_miss st2 f" using assms by (simp add: same_view_miss)
  then have "cache_view (dataCache st2) f = Some (dataCache_get (dataCache st2) f)"
    by (rule cache_hit_view)
  moreover have "cache_view (dataCache st) f = Some (dataCache_get (dataCache st) f)"
    using assms(2) by (rule cache_hit_view)
  moreover have "cache_view (dataCache st) f = cache_view (dataCache st2) f"
    using assms(1) by (simp add: same_view_def)
  ultimately show ?thesis by simp
qed

lemma same_view_cong:
  assumes "same_view st st2" "dom a = dom st" "dom b = dom st2"
    "dataCache a = dataCache st" "dataCache b = dataCache st2"
  shows "same_view a b"
  using assms by (simp add: same_view_def)

lemma same_view_store:
  assumes "same_view st st2" "dom a = dom st" "dom b = dom st2"
    "dataCache a = AList.update f v (dataCache st)"
    "dataCache b = AList.update f v (dataCache st2)"
  shows "same_view a b"
  using assms by (simp add: same_view_def cache_view_update)

lemma loadData_tolerant_miss:
  assumes "cache_miss st f"
  shows "fst (loadData_tolerant w f st) = (case parses_to w f of None \<Rightarrow> JNull | Some v \<Rightarrow> v)"
    and "dataCache (snd (loadData_tolerant w f st)) =
      (case parses_to w f of None \<Rightarrow> dataCache st
       | Some v \<Rightarrow> AList.update f v (dataCache st))"
    and "dom (snd (loadData_tolerant w f st)) = dom st"
    and "listeners (snd (loadData_tolerant w f st)) = listeners st"
    and "requests (snd (loadData_tolerant w f st)) = requests st @ [url_of f]"
proof -
  have m: "\<not> truthy (dataCache_get (dataCache st) f)"
    using assms by (simp add: cache_miss_def)
  have "fst (loadData_tolerant w f st) = (case parses_to w f of None \<Rightarrow> JNull | Some v \<Rightarrow> v) \<and>
    dataCache (snd (loadData_tolerant w f st)) =
      (case parses_to w f of None \<Rightarrow> dataCache st
       | Some v \<Rightarrow> AList.update f v (dataCache st)) \<and>
    dom (snd (loadData_tolerant w f st)) = dom st \<and>
    listeners (snd (loadData_tolerant w f st)) = listeners st \<and>
    requests (snd (loadData_tolerant w f st)) = requests st @ [url_of f]"
  proof (cases "fetch w (url_of f)")
    case (FetchRejected e)
    then show ?thesis
      by (simp add: loadData_tolerant_def m caught_def logError_def parses_to_def Let_def)
  next
    case (Response ok b)
    show ?thesis
    proof (cases b)
      case (BodyError e)
      with Response show ?thesis
        by (cases ok)
          (simp_all add: loadData_tolerant_def m caught_def logError_def parses_to_def Let_def)
    next
      case (Body t)
      with Response show ?thesis
        by ((cases ok); (cases "JSON_parse w t"))
          (simp_all add: loadData_tolerant_def m caught_def logError_def parses_to_def Let_def)
    qed
  qed
  then show "fst (loadData_tolerant w f st) = (case parses_to w f of None \<Rightarrow> JNull | Some v \<Rightarrow> v)"
    and "dataCache (snd (loadData_tolerant w f st)) =
      (case parses_to w f of None \<Rightarrow> dataCache st
       | Some v \<Rightarrow> AList.update f v (dataCache st))"
    and "dom (snd (loadData_tolerant w f st)) = dom st"
    and "listeners (snd (loadData_tolerant w f st)) = listeners st"
    and "requests (snd (loadData_tolerant w f st)) = requests st @ [url_of f]"
    by simp_all
qed

lemma loadData_tolerant_same_view:
  assumes "same_view st st2"
  shows "fst (loadData_tolerant w f st) = fst (loadData_tolerant w f st2) \<and>
         same_view (snd (loadData_tolerant w f st)) (snd (loadData_tolerant w f st2))"
proof (cases "cache_miss st f")
  case False
  then have h: "truthy (dataCache_get (dataCache st) f)" by (simp add: cache_miss_def)
  from False assms have "\<not> cache_miss st2 f" by (simp add: same_view_miss)
  then have h2: "truthy (dataCache_get (dataCache st2) f)" by (simp add: cache_miss_def)
  show ?thesis
    using same_view_hit [OF assms False] assms
    by (simp add: loadData_tolerant_hit [OF h] loadData_tolerant_hit [OF h2])
next
  case True
  with assms have m2: "cache_miss st2 f" by (simp add: same_view_miss)
  note a = loadData_tolerant_miss [OF True, of w] and b = loadData_tolerant_miss [OF m2, of w]
  have "same_view (snd (loadData_tolerant w f st)) (snd (loadData_tolerant w f st2))"
  proof (cases "parses_to w f")
    case None
    show ?thesis
      by (rule same_view_cong [OF assms]) (simp_all add: a b None)
  next
    case (Some v)
    show ?thesis
      by (rule same_view_store [OF assms, where f = f and v = v]) (simp_all add: a b Some)
  qed
  then show ?thesis by (simp add: a b)
qed

lemma loadData_tolerant_dom: "dom (snd (loadData_tolerant w f st)) = dom st"
proof (cases "cache_miss st f")
  case True
  then show ?thesis by (rule loadData_tolerant_miss)
next
  case False
  then show ?thesis by (simp add: cache_miss_def loadData_tolerant_hit)
qed

lemma loadData_tolerant_listeners: "listeners (snd (loadData_tolerant w f st)) = listeners st"
proof (cases "cache_miss st f")
  case True
  then show ?thesis by (rule loadData_tolerant_miss)
next
  case False
  then show ?thesis by (simp add: cache_miss_def loadData_tolerant_hit)
qed

lemma loadData_tolerant_falsy_same_view:
  assumes "\<not> truthy (fst (loadData_tolerant w f st))"
  shows "same_view (snd (loadData_tolerant w f st)) st"
proof (cases "cache_miss st f")
  case False
  then have "truthy (dataCache_get (dataCache st) f)" by (simp add: cache_miss_def)
  with assms show ?thesis by (simp add: loadData_tolerant_hit)
next
  case True
  note a = loadData_tolerant_miss [OF True, of w]
  have v: "cache_view (dataCache st) f = None"
    using True by (simp add: cache_miss_view)
  show ?thesis
  proof (cases "parses_to w f")
    case None
    then show ?thesis by (simp add: same_view_def a)
  next
    case (Some v)
    with assms have "\<not> truthy v" by (simp add: a)
    then have "cache_view (AList.update f v (dataCache st)) = cache_view (dataCache st)"
      using v by (simp add: cache_view_update fun_eq_iff)
    then show ?thesis by (simp add: same_view_def a Some)
  qed
qed

lemma loadData_strict_miss:
  assumes "cache_miss st f"
  shows "fst (loadData_strict w f st) = (case parses_to w f of None \<Rightarrow> JNull | Some v \<Rightarrow> v)"
    and "dataCache (snd (loadData_strict w f st)) =
      (case parses_to w f of None \<Rightarrow> dataCache st
       | Some v \<Rightarrow> AList.update f v (dataCache st))"
    and "dom (snd (loadData_strict w f st)) = dom st"
    and "listeners (snd (loadData_strict w f st)) = listeners st"
    and "requests (snd (loadData_strict w f st)) = requests st @ [url_of f]"
proof -
  have m: "\<not> truthy (dataCache_get (dataCache st) f)"
    using assms by (simp add: cache_miss_def)
  have "fst (loadData_strict w f st) = (case parses_to w f of None \<Rightarrow> JNull | Some v \<Rightarrow> v) \<and>
    dataCache (snd (loadData_strict w f st)) =
      (case parses_to w f of None \<Rightarrow> dataCache st
       | Some v \<Rightarrow> AList.update f v (dataCache st)) \<and>
    dom (snd (loadData_strict w f st)) = dom st \<and>
    listeners (snd (loadData_strict w f st)) = listeners st \<and>
    requests (snd (loadData_strict w f st)) = requests st @ [url_of f]"
  proof (cases "fetch w (url_of f)")
    case (FetchRejected e)
    then show ?thesis
      by (simp add: loadData_strict_def m caught_def logError_def parses_to_def Let_def)
  next
    case (Response ok b)
    show ?thesis
    proof (cases b)
      case (BodyError e)
      with Response show ?thesis
        by (cases ok)
          (simp_all add: loadData_strict_def m caught_def logError_def parses_to_def Let_def)
    next
      case (Body t)
      with Response show ?thesis
        by ((cases ok); (cases "JSON_parse w t"))
          (simp_all add: loadData_strict_def m caught_def logError_def parses_to_def Let_def)
    qed
  qed
  then show "fst (loadData_strict w f st) = (case parses_to w f of None \<Rightarrow> JNull | Some v \<Rightarrow> v)"
    and "dataCache (snd (loadData_strict w f st)) =
      (case parses_to w f of None \<Rightarrow> dataCache st
       | Some v \<Rightarrow> AList.update f v (dataCache st))"
    and "dom (snd (loadData_strict w f st)) = dom st"
    and "listeners (snd (loadData_strict w f st)) = listeners st"
    and "requests (snd (loadData_strict w f st)) = requests st @ [url_of f]"
    by simp_all
qed

lemma loadData_strict_same_view:
  assumes "same_view st st2"
  shows "fst (loadData_strict w f st) = fst (loadData_strict w f st2) \<and>
         same_view (snd (loadData_strict w f st)) (snd (loadData_strict w f st2))"
proof (cases "cache_miss st f")
  case False
  then have h: "truthy (dataCache_get (dataCache st) f)" by (simp add: cache_miss_def)
  from False assms have "\<not> cache_miss st2 f" by (simp add: same_view_miss)
  then have h2: "truthy (dataCache_get (dataCache st2) f)" by (simp add: cache_miss_def)
  show ?thesis
    using same_view_hit [OF assms False] assms
    by (simp add: loadData_strict_hit [OF h] loadData_strict_hit [OF h2])
next
  case True
  with assms have m2: "cache_miss st2 f" by (simp add: same_view_miss)
  note a = loadData_strict_miss [OF True, of w] and b = loadData_strict_miss [OF m2, of w]
  have "same_view (snd (loadData_strict w f st)) (snd (loadData_strict w f st2))"
  proof (cases "parses_to w f")
    case None
    show ?thesis
      by (rule same_view_cong [OF assms]) (simp_all add: a b None)
  next
    case (Some v)
    show ?thesis
      by (rule same_view_store [OF assms, where f = f and v = v]) (simp_all add: a b Some)
  qed
  then show ?thesis by (simp add: a b)
qed

lemma loadData_strict_dom: "dom (snd (loadData_strict w f st)) = dom st"
proof (cases "cache_miss st f")
  case True
  then show ?thesis by (rule loadData_strict_miss)
next
  case False
  then show ?thesis by (simp add: cache_miss_def loadData_strict_hit)
qed

lemma loadData_strict_listeners: "listeners (snd (loadData_strict w f st)) = listeners st"
proof (cases "cache_miss st f")
  case True
  then show ?thesis by (rule loadData_strict_miss)
next
  case False
  then show ?thesis by (simp add: cache_miss_def loadData_strict_hit)
qed

lemma loadData_strict_falsy_same_view:
  assumes "\<not> truthy (fst (loadData_strict w f st))"
  shows "same_view (snd (loadData_strict w f st)) st"
proof (cases "cache_miss st f")
  case False
  then have "truthy (dataCache_get (dataCache st) f)" by (simp add: cache_miss_def)
  with assms show ?thesis by (simp add: loadData_strict_hit)
next
  case True
  note a = loadData_strict_miss [OF True, of w]
  have v: "cache_view (dataCache st) f = None"
    using True by (simp add: cache_miss_view)
  show ?thesis
  proof (cases "parses_to w f")
    case None
    then show ?thesis by (simp add: same_view_def a)
  next
    case (Some v)
    with assms have "\<not> truthy v" by (simp add: a)
    then have "cache_view (AList.update f v (dataCache st)) = cache_view (dataCache st)"
      using v by (simp add: cache_view_update fun_eq_iff)
    then show ?thesis by (simp add: same_view_def a Some)
  qed
qed

lemma guarded_falsy:
  "\<not> truthy (fst (loadData w name st)) \<Longrightarrow>
     guarded loadData name body w st = (snd (loadData w name st), Fulfilled)"
  by (simp add: guarded_def split_beta)

lemma guarded_same_view:
  assumes b: "\<And>doc. dom_only (body doc)"
    and l: "\<And>st st2. same_view st st2 \<Longrightarrow>
       fst (loadData w name st) = fst (loadData w name st2) \<and>
       same_view (snd (loadData w name st)) (snd (loadData w name st2))"
    and v: "same_view st st2"
  shows "snd (guarded loadData name body w st) = snd (guarded loadData name body w st2) \<and>
         same_view (fst (guarded loadData name body w st)) (fst (guarded loadData name body w st2))"
proof -
  define doc where "doc = fst (loadData w name st)"
  define s1 where "s1 = snd (loadData w name st)"
  define s2 where "s2 = snd (loadData w name st2)"
  have d: "fst (loadData w name st2) = doc" and sv: "same_view s1 s2"
    using l [OF v] by (simp_all add: doc_def s1_def s2_def)
  show ?thesis
  proof (cases "truthy doc")
    case False
    then show ?thesis
      using sv d by (simp add: guarded_def split_beta doc_def [symmetric] s1_def s2_def)
  next
    case True
    have g1: "guarded loadData name body w st = body doc s1"
      using True by (simp add: guarded_def split_beta doc_def [symmetric] s1_def)
    have g2: "guarded loadData name body w st2 = body doc s2"
      using True d by (simp add: guarded_def split_beta s2_def)
    from b [of doc] have
      o: "snd (body doc s1) = snd (body doc s2)" and
      f1: "fst (body doc s1) = s1\<lparr>dom := dom (fst (body doc s1))\<rparr>" and
      f2: "fst (body doc s2) = s2\<lparr>dom := dom (fst (body doc s2))\<rparr>" and
      dd: "dom s1 = dom s2 \<longrightarrow> dom (fst (body doc s1)) = dom (fst (body doc s2))"
      unfolding dom_only_def by blast+
    have c1: "dataCache (fst (body doc s1)) = dataCache s1"
      by (subst f1) simp
    have c2: "dataCache (fst (body doc s2)) = dataCache s2"
      by (subst f2) simp
    have "same_view (fst (body doc s1)) (fst (body doc s2))"
      using sv dd by (simp add: same_view_def c1 c2)
    with o show ?thesis by (simp add: g1 g2)
  qed
qed

lemma notfound_tolerant:
  assumes r: "(name, R) \<in> set renderers_tolerant"
    and n: "\<not> truthy (fst (loadData_tolerant w name st))"
  shows "snd (R w st) = Fulfilled" and "dom (fst (R w st)) = dom st"
    and "same_view (fst (R w st)) st"
proof -
  from r obtain body where R: "R = guarded loadData_tolerant name body"
    by (auto simp: renderers_tolerant_guarded)
  have e: "R w st = (snd (loadData_tolerant w name st), Fulfilled)"
    unfolding R using n by (rule guarded_falsy)
  show "snd (R w st) = Fulfilled" by (simp add: e)
  show "dom (fst (R w st)) = dom st" by (simp add: e loadData_tolerant_dom)
  show "same_view (fst (R w st)) st"
    using loadData_tolerant_falsy_same_view [OF n] by (simp add: e)
qed

lemma renderer_tolerant_same_view:
  assumes r: "(name, R) \<in> set renderers_tolerant" and v: "same_view st st2"
  shows "snd (R w st) = snd (R w st2) \<and> same_view (fst (R w st)) (fst (R w st2))"
proof -
  from r obtain body where R: "R = guarded loadData_tolerant name body"
    and b: "(name, body) \<in> set bodies_tolerant"
    by (auto simp: renderers_tolerant_guarded)
  have d: "dom_only (body doc)" for doc
    using b by (auto intro: dom_only_listed)
  show ?thesis
    unfolding R using d loadData_tolerant_same_view v by (rule guarded_same_view)
qed

lemma renderer_tolerant_listeners:
  assumes r: "(name, R) \<in> set renderers_tolerant"
  shows "listeners (fst (R w st)) = listeners st"
proof -
  from r obtain body where R: "R = guarded loadData_tolerant name body"
    and b: "(name, body) \<in> set bodies_tolerant"
    by (auto simp: renderers_tolerant_guarded)
  define doc where "doc = fst (loadData_tolerant w name st)"
  define s1 where "s1 = snd (loadData_tolerant w name st)"
  have "dom_only (body doc)"
    using b by (auto intro: dom_only_listed)
  then have f: "fst (body doc s1) = s1\<lparr>dom := dom (fst (body doc s1))\<rparr>"
    unfolding dom_only_def by blast
  have "listeners (fst (body doc s1)) = listeners s1"
    by (subst f) simp
  then show ?thesis
    by (simp add: R guarded_def split_beta doc_def s1_def loadData_tolerant_listeners)
qed

lemma notfound_strict:
  assumes r: "(name, R) \<in> set renderers_strict"
    and n: "\<not> truthy (fst (loadData_strict w name st))"
  shows "snd (R w st) = Fulfilled" and "dom (fst (R w st)) = dom st"
    and "same_view (fst (R w st)) st"
proof -
  from r obtain body where R: "R = guarded loadData_strict name body"
    by (auto simp: renderers_strict_guarded)
  have e: "R w st = (snd (loadData_strict w name st), Fulfilled)"
    unfolding R using n by (rule guarded_falsy)
  show "snd (R w st) = Fulfilled" by (simp add: e)
  show "dom (fst (R w st)) = dom st" by (simp add: e loadData_strict_dom)
  show "same_view (fst (R w st)) st"
    using loadData_strict_falsy_same_view [OF n] by (simp add: e)
qed

lemma renderer_strict_same_view:
  assumes r: "(name, R) \<in> set renderers_strict" and v: "same_view st st2"
  shows "snd (R w st) = snd (R w st2) \<and> same_view (fst (R w st)) (fst (R w st2))"
proof -
  from r obtain body where R: "R = guarded loadData_strict name body"
    and b: "(name, body) \<in> set bodies_strict"
    by (auto simp: renderers_strict_guarded)
  have d: "dom_only (body doc)" for doc
    using b by (auto intro: dom_only_listed)
  show ?thesis
    unfolding R using d loadData_strict_same_view v by (rule guarded_same_view)
qed

lemma renderer_strict_listeners:
  assumes r: "(name, R) \<in> set renderers_strict"
  shows "listeners (fst (R w st)) = listeners st"
proof -
  from r obtain body where R: "R = guarded loadData_strict name body"
    and b: "(name, body) \<in> set bodies_strict"
    by (auto simp: renderers_strict_guarded)
  define doc where "doc = fst (loadData_strict w name st)"
  define s1 where "s1 = snd (loadData_strict w name st)"
  have "dom_only (body doc)"
    using b by (auto intro: dom_only_listed)
  then have f: "fst (body doc s1) = s1\<lparr>dom := dom (fst (body doc s1))\<rparr>"
    unfolding dom_only_def by blast
  have "listeners (fst (body doc s1)) = listeners s1"
    by (subst f) simp
  then show ?thesis
    by (simp add: R guarded_def split_beta doc_def s1_def loadData_strict_listeners)
qed


text \<open>
  C4. When \<^verbatim>\<open>loadData\<close> returns \<^verbatim>\<open>null\<close> for the document of a section, the renderer
  of that section is fulfilled and has written to no element. Every renderer run after it,
  whatever the network does by then, settles the same way and leaves the same elements as
  it would have without the failed one. This holds in both copies of the script.
\<close>

theorem notfound_renders_nothing:
  "(\<forall>(name, R) \<in> set renderers_tolerant.
      fst (loadData_tolerant w name st) = JNull \<longrightarrow>
        snd (R w st) = Fulfilled \<and> dom (fst (R w st)) = dom st \<and>
        (\<forall>(name', R') \<in> set renderers_tolerant. \<forall>w'.
           snd (R' w' (fst (R w st))) = snd (R' w' st) \<and>
           dom (fst (R' w' (fst (R w st)))) = dom (fst (R' w' st)))) \<and>
   (\<forall>(name, R) \<in> set renderers_strict.
      fst (loadData_strict w name st) = JNull \<longrightarrow>
        snd (R w st) = Fulfilled \<and> dom (fst (R w st)) = dom st \<and>
        (\<forall>(name', R') \<in> set renderers_strict. \<forall>w'.
           snd (R' w' (fst (R w st))) = snd (R' w' st) \<and>
           dom (fst (R' w' (fst (R w st)))) = dom (fst (R' w' st))))"
proof (intro conjI ballI)
  fix p assume p: "p \<in> set renderers_tolerant"
  obtain name R where pe: "p = (name, R)" by (cases p)
  have "fst (loadData_tolerant w name st) = JNull \<longrightarrow>
        snd (R w st) = Fulfilled \<and> dom (fst (R w st)) = dom st \<and>
        (\<forall>(name', R') \<in> set renderers_tolerant. \<forall>w'.
           snd (R' w' (fst (R w st))) = snd (R' w' st) \<and>
           dom (fst (R' w' (fst (R w st)))) = dom (fst (R' w' st)))"
  proof (intro impI conjI ballI)
    assume "fst (loadData_tolerant w name st) = JNull"
    then have n: "\<not> truthy (fst (loadData_tolerant w name st))" by simp
    note nf = notfound_tolerant [OF p [unfolded pe] n]
    show "snd (R w st) = Fulfilled" and "dom (fst (R w st)) = dom st"
      by (rule nf)+
    fix q assume q: "q \<in> set renderers_tolerant"
    obtain name' R' where qe: "q = (name', R')" by (cases q)
    have "snd (R' w' (fst (R w st))) = snd (R' w' st) \<and>
          dom (fst (R' w' (fst (R w st)))) = dom (fst (R' w' st))" for w'
      using renderer_tolerant_same_view [OF q [unfolded qe] nf(3), of w']
      by (simp add: same_view_def)
    then show "case q of (name', R') \<Rightarrow> \<forall>w'.
           snd (R' w' (fst (R w st))) = snd (R' w' st) \<and>
           dom (fst (R' w' (fst (R w st)))) = dom (fst (R' w' st))"
      by (simp add: qe)
  qed
  then show "case p of (name, R) \<Rightarrow>
      fst (loadData_tolerant w name st) = JNull \<longrightarrow>
        snd (R w st) = Fulfilled \<and> dom (fst (R w st)) = dom st \<and>
        (\<forall>(name', R') \<in> set renderers_tolerant. \<forall>w'.
           snd (R' w' (fst (R w st))) = snd (R' w' st) \<and>
           dom (fst (R' w' (fst (R w st)))) = dom (fst (R' w' st)))"
    by (simp add: pe)
next
  fix p assume p: "p \<in> set renderers_strict"
  obtain name R where pe: "p = (name, R)" by (cases p)
  have "fst (loadData_strict w name st) = JNull \<longrightarrow>
        snd (R w st) = Fulfilled \<and> dom (fst (R w st)) = dom st \<and>
        (\<forall>(name', R') \<in> set renderers_strict. \<forall>w'.
           snd (R' w' (fst (R w st))) = snd (R' w' st) \<and>
           dom (fst (R' w' (fst (R w st)))) = dom (fst (R' w' st)))"
  proof (intro impI conjI ballI)
    assume "fst (loadData_strict w name st) = JNull"
    then have n: "\<not> truthy (fst (loadData_strict w name st))" by simp
    note nf = notfound_strict [OF p [unfolded pe] n]
    show "snd (R w st) = Fulfilled" and "dom (fst (R w st)) = dom st"
      by (rule nf)+
    fix q assume q: "q \<in> set renderers_strict"
    obtain name' R' where qe: "q = (name', R')" by (cases q)
    have "snd (R' w' (fst (R w st))) = snd (R' w' st) \<and>
          dom (fst (R' w' (fst (R w st)))) = dom (fst (R' w' st))" for w'
      using renderer_strict_same_view [OF q [unfolded qe] nf(3), of w']
      by (simp add: same_view_def)
    then show "case q of (name', R') \<Rightarrow> \<forall>w'.
           snd (R' w' (fst (R w st))) = snd (R' w' st) \<and>
           dom (fst (R' w' (fst (R w st)))) = dom (fst (R' w' st))"
      by (simp add: qe)
  qed
  then show "case p of (name, R) \<Rightarrow>
      fst (loadData_strict w name st) = JNull \<longrightarrow>
        snd (R w st) = Fulfilled \<and> dom (fst (R w st)) = dom st \<and>
        (\<forall>(name', R') \<in> set renderers_strict. \<forall>w'.
           snd (R' w' (fst (R w st))) = snd (R' w' st) \<and>
           dom (fst (R' w' (fst (R w st)))) = dom (fst (R' w' st)))"
    by (simp add: pe)
qed

theorem notfound_renders_nothing_witness:
  "(''about'', renderAbout_tolerant) \<in> set renderers_tolerant \<and>
   (''menu'', renderMenu_tolerant) \<in> set renderers_tolerant \<and>
   fst (loadData_tolerant offline ''about'' (initial_state blank)) = JNull \<and>
   snd (renderAbout_tolerant offline (initial_state blank)) = Fulfilled \<and>
   dom (fst (renderAbout_tolerant offline (initial_state blank))) = dom (initial_state blank) \<and>
   dom (fst (renderMenu_tolerant (serving (JObj [(''note'', JStr ''Fresh daily'')]))
          (fst (renderAbout_tolerant offline (initial_state blank))))) =
   dom (fst (renderMenu_tolerant (serving (JObj [(''note'', JStr ''Fresh daily'')]))
          (initial_state blank))) \<and>
   (''about'', renderAbout_strict) \<in> set renderers_strict \<and>
   (''menu'', renderMenu_strict) \<in> set renderers_strict \<and>
   fst (loadData_strict offline ''about'' (initial_state blank)) = JNull \<and>
   snd (renderAbout_strict offline (initial_state blank)) = Fulfilled \<and>
   dom (fst (renderAbout_strict offline (initial_state blank))) = dom (initial_state blank) \<and>
   dom (fst (renderMenu_strict (serving (JObj [(''note'', JStr ''Fresh daily'')]))
          (fst (renderAbout_strict offline (initial_state blank))))) =
   dom (fst (renderMenu_strict (serving (JObj [(''note'', JStr ''Fresh daily'')]))
          (initial_state blank)))"
proof -
  have m: "(''about'', renderAbout_tolerant) \<in> set renderers_tolerant"
      "(''menu'', renderMenu_tolerant) \<in> set renderers_tolerant"
      "(''about'', renderAbout_strict) \<in> set renderers_strict"
      "(''menu'', renderMenu_strict) \<in> set renderers_strict"
    by (simp_all add: renderers_tolerant_def renderers_strict_def)
  have h: "fst (loadData_tolerant offline ''about'' (initial_state blank)) = JNull"
      "fst (loadData_strict offline ''about'' (initial_state blank)) = JNull"
    by (simp_all add: loadData_tolerant_def loadData_strict_def offline_def initial_state_def
          dataCache_get_def objectPrototypeKeys_def caught_def)
  note t = notfound_renders_nothing [of offline "initial_state blank"]
  from t m(1) h(1) have a:
    "snd (renderAbout_tolerant offline (initial_state blank)) = Fulfilled \<and>
     dom (fst (renderAbout_tolerant offline (initial_state blank))) = dom (initial_state blank) \<and>
     (\<forall>(name', R') \<in> set renderers_tolerant. \<forall>w'.
        snd (R' w' (fst (renderAbout_tolerant offline (initial_state blank)))) =
          snd (R' w' (initial_state blank)) \<and>
        dom (fst (R' w' (fst (renderAbout_tolerant offline (initial_state blank))))) =
          dom (fst (R' w' (initial_state blank))))"
    by fast
  from t m(3) h(2) have b:
    "snd (renderAbout_strict offline (initial_state blank)) = Fulfilled \<and>
     dom (fst (renderAbout_strict offline (initial_state blank))) = dom (initial_state blank) \<and>
     (\<forall>(name', R') \<in> set renderers_strict. \<forall>w'.
        snd (R' w' (fst (renderAbout_strict offline (initial_state blank)))) =
          snd (R' w' (initial_state blank)) \<and>
        dom (fst (R' w' (fst (renderAbout_strict offline (initial_state blank))))) =
          dom (fst (R' w' (initial_state blank))))"
    by fast
  from a m(2) have a2:
    "dom (fst (renderMenu_tolerant (serving (JObj [(''note'', JStr ''Fresh daily'')]))
          (fst (renderAbout_tolerant offline (initial_state blank))))) =
     dom (fst (renderMenu_tolerant (serving (JObj [(''note'', JStr ''Fresh daily'')]))
          (initial_state blank)))"
    by fast
  from b m(4) have b2:
    "dom (fst (renderMenu_strict (serving (JObj [(''note'', JStr ''Fresh daily'')]))
          (fst (renderAbout_strict offline (initial_state blank))))) =
     dom (fst (renderMenu_strict (serving (JObj [(''note'', JStr ''Fresh daily'')]))
          (initial_state blank)))"
    by fast
  show ?thesis using m h a b a2 b2 by blast
qed

section \<open>Falsy documents\<close>

lemma falsy_stays_missed_tolerant:
  assumes "cache_miss st f" "parses_to w f = Some v" "\<not> truthy v"
  shows "cache_miss (snd (loadData_tolerant w f st)) f"
  using assms by (simp add: cache_miss_def loadData_tolerant_miss dataCache_get_update)

lemma falsy_stays_missed_strict:
  assumes "cache_miss st f" "parses_to w f = Some v" "\<not> truthy v"
  shows "cache_miss (snd (loadData_strict w f st)) f"
  using assms by (simp add: cache_miss_def loadData_strict_miss dataCache_get_update)

lemma falsy_calls_tolerant:
  assumes "cache_miss st f" "parses_to w f = Some v" "\<not> truthy v"
  shows "cache_miss (((\<lambda>s. snd (loadData_tolerant w f s)) ^^ n) st) f \<and>
     requests (((\<lambda>s. snd (loadData_tolerant w f s)) ^^ n) st) =
       requests st @ replicate n (url_of f)"
proof (induction n)
  case 0
  show ?case using assms(1) by simp
next
  case (Suc n)
  then show ?case
    using falsy_stays_missed_tolerant [OF _ assms(2,3)]
    by (simp add: loadData_tolerant_miss replicate_append_same)
qed

lemma falsy_calls_strict:
  assumes "cache_miss st f" "parses_to w f = Some v" "\<not> truthy v"
  shows "cache_miss (((\<lambda>s. snd (loadData_strict w f s)) ^^ n) st) f \<and>
     requests (((\<lambda>s. snd (loadData_strict w f s)) ^^ n) st) =
       requests st @ replicate n (url_of f)"
proof (induction n)
  case 0
  show ?case using assms(1) by simp
next
  case (Suc n)
  then show ?case
    using falsy_stays_missed_strict [OF _ assms(2,3)]
    by (simp add: loadData_strict_miss replicate_append_same)
qed

text \<open>
  C10. When the resource of a name parses to a falsy value and the cache has no truthy
  entry for the name, every call of \<^verbatim>\<open>loadData\<close> returns that value and goes to the
  network again: after \<open>n\<close> calls there are \<open>n\<close> more requests, and the read of the
  cache is still falsy. The renderer of that name is fulfilled and writes to no element,
  as for \<^verbatim>\<open>null\<close>. This holds in both copies of the script.
\<close>

theorem falsy_document_never_cached:
  "cache_miss st f \<and> parses_to w f = Some v \<and> \<not> truthy v \<longrightarrow>
     fst (loadData_tolerant w f st) = v \<and>
     cache_miss (((\<lambda>s. snd (loadData_tolerant w f s)) ^^ n) st) f \<and>
     requests (((\<lambda>s. snd (loadData_tolerant w f s)) ^^ n) st) =
       requests st @ replicate n (url_of f) \<and>
     (\<forall>(name, R) \<in> set renderers_tolerant. name = f \<longrightarrow>
        snd (R w st) = Fulfilled \<and> dom (fst (R w st)) = dom st) \<and>
     fst (loadData_strict w f st) = v \<and>
     cache_miss (((\<lambda>s. snd (loadData_strict w f s)) ^^ n) st) f \<and>
     requests (((\<lambda>s. snd (loadData_strict w f s)) ^^ n) st) =
       requests st @ replicate n (url_of f) \<and>
     (\<forall>(name, R) \<in> set renderers_strict. name = f \<longrightarrow>
        snd (R w st) = Fulfilled \<and> dom (fst (R w st)) = dom st)"
  (is "?H \<longrightarrow> ?C")
proof
  assume ?H
  then have m: "cache_miss st f" and p: "parses_to w f = Some v" and v: "\<not> truthy v"
    by simp_all
  have t: "fst (loadData_tolerant w f st) = v" and s: "fst (loadData_strict w f st) = v"
    using m p by (simp_all add: loadData_tolerant_miss loadData_strict_miss)
  have rt: "snd (R w st) = Fulfilled \<and> dom (fst (R w st)) = dom st"
    if "(f, R) \<in> set renderers_tolerant" for R
    using notfound_tolerant [OF that, of w st] v by (simp add: t)
  have rs: "snd (R w st) = Fulfilled \<and> dom (fst (R w st)) = dom st"
    if "(f, R) \<in> set renderers_strict" for R
    using notfound_strict [OF that, of w st] v by (simp add: s)
  show ?C
    using t s rt rs falsy_calls_tolerant [OF m p v, of n] falsy_calls_strict [OF m p v, of n]
    by auto
qed

theorem falsy_document_never_cached_witness:
  "cache_miss (initial_state blank) ''menu'' \<and>
   parses_to (serving (JNum ''0'')) ''menu'' = Some (JNum ''0'') \<and>
   \<not> truthy (JNum ''0'') \<and>
   (''menu'', renderMenu_tolerant) \<in> set renderers_tolerant \<and>
   (''menu'', renderMenu_strict) \<in> set renderers_strict \<and>
   requests (((\<lambda>s. snd (loadData_tolerant (serving (JNum ''0'')) ''menu'' s)) ^^ 3)
       (initial_state blank)) =
     [''data/menu.json'', ''data/menu.json'', ''data/menu.json''] \<and>
   requests (((\<lambda>s. snd (loadData_strict (serving (JNum ''0'')) ''menu'' s)) ^^ 3)
       (initial_state blank)) =
     [''data/menu.json'', ''data/menu.json'', ''data/menu.json''] \<and>
   snd (renderMenu_tolerant (serving (JNum ''0'')) (initial_state blank)) = Fulfilled \<and>
   dom (fst (renderMenu_tolerant (serving (JNum ''0'')) (initial_state blank))) = blank \<and>
   snd (renderMenu_strict (serving (JNum ''0'')) (initial_state blank)) = Fulfilled \<and>
   dom (fst (renderMenu_strict (serving (JNum ''0'')) (initial_state blank))) = blank"
proof -
  have h: "cache_miss (initial_state blank) ''menu'' \<and>
      parses_to (serving (JNum ''0'')) ''menu'' = Some (JNum ''0'') \<and> \<not> truthy (JNum ''0'')"
    by (simp add: cache_miss_def initial_state_def dataCache_get_def objectPrototypeKeys_def
          parses_to_def serving_def)
  have m: "(''menu'', renderMenu_tolerant) \<in> set renderers_tolerant"
      "(''menu'', renderMenu_strict) \<in> set renderers_strict"
    by (simp_all add: renderers_tolerant_def renderers_strict_def)
  note t = falsy_document_never_cached
    [of "initial_state blank" "''menu''" "serving (JNum ''0'')" "JNum ''0''" 3, rule_format, OF h]
  from t m have r:
    "snd (renderMenu_tolerant (serving (JNum ''0'')) (initial_state blank)) = Fulfilled \<and>
     dom (fst (renderMenu_tolerant (serving (JNum ''0'')) (initial_state blank))) =
       dom (initial_state blank) \<and>
     snd (renderMenu_strict (serving (JNum ''0'')) (initial_state blank)) = Fulfilled \<and>
     dom (fst (renderMenu_strict (serving (JNum ''0'')) (initial_state blank))) =
       dom (initial_state blank)"
    by fast
  have i: "requests (initial_state blank) = []" "dom (initial_state blank) = blank"
    by (simp_all add: initial_state_def)
  have u: "replicate 3 (url_of ''menu'') =
      [''data/menu.json'', ''data/menu.json'', ''data/menu.json'']"
    by (simp add: url_of_def numeral_3_eq_3)
  show ?thesis using h m t r by (simp add: i u)
qed

section \<open>The navigation bar\<close>

text \<open>
  C9. After the listener of \<^verbatim>\<open>scroll\<close> has run, the navigation bar has the class
  \<^verbatim>\<open>scrolled\<close> exactly when the scroll position is above 50, whatever classes it had
  before: set at 51, cleared at 49, cleared at 50. Running the listener again at the
  same position changes nothing.
\<close>

theorem scrolled_state_threshold:
  "(''scrolled'' \<in> set (scrollHandler y navbar)) = (50 < y) \<and>
   ''scrolled'' \<in> set (scrollHandler 51 navbar) \<and>
   ''scrolled'' \<notin> set (scrollHandler 49 navbar) \<and>
   ''scrolled'' \<notin> set (scrollHandler 50 navbar) \<and>
   scrollHandler y (scrollHandler y navbar) = scrollHandler y navbar"
proof -
  have state: "(''scrolled'' \<in> set (scrollHandler z cl)) = (50 < z)" for z cl
    by (simp add: scrollHandler_def classList_add_def classList_remove_def)
  have again: "scrollHandler y (scrollHandler y navbar) = scrollHandler y navbar"
    by (simp add: scrollHandler_def classList_add_def classList_remove_def)
  show ?thesis
    using state [of y navbar] state [of 51 navbar] state [of 49 navbar] state [of 50 navbar]
      again
    by simp
qed

section \<open>The bootstrapper\<close>

lemma init_step_tasks_length:
  "init_step rs w e a = Some a' \<Longrightarrow> length (tasks a') = length (tasks a)"
  by (cases e) (auto split: if_splits prod.splits)

lemma init_step_inv:
  assumes pres: "\<And>name R w st. (name, R) \<in> set rs \<Longrightarrow> listeners (fst (R w st)) = listeners st"
    and inv: "wiring_inv a" and step: "init_step rs w e a = Some a'"
  shows "wiring_inv a'"
proof (cases e)
  case (Settle i)
  with step have i: "i < length rs" "i < length (tasks a)" "tasks a ! i = Pending"
    and a': "a' = a\<lparr>tasks := (tasks a)[i := Settled (snd (snd (rs ! i) w (page a)))],
                     page := fst (snd (rs ! i) w (page a))\<rparr>"
    by (auto split: if_splits prod.splits)
  have "\<not> list_all (\<lambda>t. t = Settled Fulfilled) (tasks a)"
    using i(2,3) by (auto simp: list_all_length)
  with inv have e: "listeners (page a) = []" by (auto simp: wiring_inv_def)
  have "(fst (rs ! i), snd (rs ! i)) \<in> set rs" using i(1) by simp
  then have "listeners (fst (snd (rs ! i) w (page a))) = listeners (page a)"
    by (rule pres)
  with e show ?thesis by (simp add: wiring_inv_def a')
next
  case Join
  with step have nj: "\<not> joined a" by (auto split: if_splits)
  with inv have e: "listeners (page a) = []" by (simp add: wiring_inv_def)
  show ?thesis
  proof (cases "list_all (\<lambda>t. t = Settled Fulfilled) (tasks a)")
    case True
    with step Join nj have "a' = a\<lparr>page := init_continue (page a), joined := True\<rparr>"
      by simp
    with True show ?thesis by (simp add: wiring_inv_def)
  next
    case False
    with step Join nj have "a' = a\<lparr>page := init_catch (page a), joined := True\<rparr>"
      by (auto split: if_splits)
    with e show ?thesis by (simp add: wiring_inv_def init_catch_def logError_def)
  qed
qed

lemma init_run_inv:
  assumes pres: "\<And>name R w st. (name, R) \<in> set rs \<Longrightarrow> listeners (fst (R w st)) = listeners st"
  shows "init_run rs w es a = Some a' \<Longrightarrow> wiring_inv a \<Longrightarrow>
         wiring_inv a' \<and> length (tasks a') = length (tasks a)"
proof (induction es arbitrary: a)
  case Nil
  then show ?case by simp
next
  case (Cons e es)
  from Cons.prems(1) obtain b where b: "init_step rs w e a = Some b"
    and r: "init_run rs w es b = Some a'"
    by (auto split: option.splits)
  have "wiring_inv b" using pres Cons.prems(2) b by (rule init_step_inv)
  with Cons.IH [OF r] init_step_tasks_length [OF b] show ?case by simp
qed

lemma all_settled_replicate:
  "list_all (\<lambda>t. t = Settled Fulfilled) ts \<Longrightarrow> ts = replicate (length ts) (Settled Fulfilled)"
  by (induction ts) auto

text \<open>
  C8. In every execution of \<^verbatim>\<open>init\<close> that starts on a page without listeners, at
  every moment: if \<^verbatim>\<open>initNavigation\<close> has added its listeners, then each of the five
  renderers has settled, fulfilled. So none is pending when the navigation is wired, and
  the navigation is not wired at all when one is rejected. This holds in both copies.
\<close>

theorem navigation_after_all_settled:
  "(init renderers_tolerant w es st = Some a \<and> listeners st = [] \<and> listeners (page a) \<noteq> [] \<longrightarrow>
      tasks a = replicate 5 (Settled Fulfilled)) \<and>
   (init renderers_strict w es st = Some a \<and> listeners st = [] \<and> listeners (page a) \<noteq> [] \<longrightarrow>
      tasks a = replicate 5 (Settled Fulfilled))"
proof (intro conjI impI; elim conjE)
  assume r: "init renderers_tolerant w es st = Some a" and e: "listeners st = []"
    and n: "listeners (page a) \<noteq> []"
  have s: "wiring_inv (init_start renderers_tolerant st)"
    using e by (simp add: wiring_inv_def init_start_def)
  have "wiring_inv a \<and> length (tasks a) = length (tasks (init_start renderers_tolerant st))"
    using renderer_tolerant_listeners r [unfolded init_def] s by (rule init_run_inv)
  then have "list_all (\<lambda>t. t = Settled Fulfilled) (tasks a)" and "length (tasks a) = 5"
    using n by (simp_all add: wiring_inv_def init_start_def renderers_tolerant_def)
  then show "tasks a = replicate 5 (Settled Fulfilled)"
    using all_settled_replicate by fastforce
next
  assume r: "init renderers_strict w es st = Some a" and e: "listeners st = []"
    and n: "listeners (page a) \<noteq> []"
  have s: "wiring_inv (init_start renderers_strict st)"
    using e by (simp add: wiring_inv_def init_start_def)
  have "wiring_inv a \<and> length (tasks a) = length (tasks (init_start renderers_strict st))"
    using renderer_strict_listeners r [unfolded init_def] s by (rule init_run_inv)
  then have "list_all (\<lambda>t. t = Settled Fulfilled) (tasks a)" and "length (tasks a) = 5"
    using n by (simp_all add: wiring_inv_def init_start_def renderers_strict_def)
  then show "tasks a = replicate 5 (Settled Fulfilled)"
    using all_settled_replicate by fastforce
qed

lemmas renderer_defs =
  renderSite_def renderAbout_strict_def renderMenu_strict_def renderServices_strict_def
  renderContact_strict_def renderAbout_tolerant_def renderMenu_tolerant_def
  renderServices_tolerant_def renderContact_tolerant_def

theorem navigation_after_all_settled_witness:
  "listeners (initial_state blank) = [] \<and>
   map_option (\<lambda>a. listeners (page a))
     (init renderers_tolerant offline [Settle 2, Settle 0, Settle 4, Settle 1, Settle 3, Join]
        (initial_state blank)) =
     Some [(''.nav-toggle'', ''click''), (''.nav-menu a'', ''click''),
           (''a[href^=\"#\"]'', ''click''), (''window'', ''scroll'')] \<and>
   map_option tasks
     (init renderers_tolerant offline [Settle 2, Settle 0, Settle 4, Settle 1, Settle 3, Join]
        (initial_state blank)) =
     Some [Settled Fulfilled, Settled Fulfilled, Settled Fulfilled, Settled Fulfilled,
           Settled Fulfilled] \<and>
   map_option (\<lambda>a. listeners (page a))
     (init renderers_strict offline [Settle 2, Settle 0, Settle 4, Settle 1, Settle 3, Join]
        (initial_state blank)) =
     Some [(''.nav-toggle'', ''click''), (''.nav-menu a'', ''click''),
           (''a[href^=\"#\"]'', ''click''), (''window'', ''scroll'')] \<and>
   map_option tasks
     (init renderers_strict offline [Settle 2, Settle 0, Settle 4, Settle 1, Settle 3, Join]
        (initial_state blank)) =
     Some [Settled Fulfilled, Settled Fulfilled, Settled Fulfilled, Settled Fulfilled,
           Settled Fulfilled]"
proof -
  let ?es = "[Settle 2, Settle 0, Settle 4, Settle 1, Settle 3, Join]"
  let ?ls = "[(''.nav-toggle'', ''click''), (''.nav-menu a'', ''click''),
           (''a[href^=\"#\"]'', ''click''), (''window'', ''scroll'')]"
  have i: "listeners (initial_state blank) = []"
    by (simp add: initial_state_def)
  have t: "map_option (\<lambda>a. listeners (page a))
      (init renderers_tolerant offline ?es (initial_state blank)) = Some ?ls"
    by (simp add: init_def init_start_def renderers_tolerant_def renderer_defs
          loadData_tolerant_def offline_def initial_state_def dataCache_get_def
          objectPrototypeKeys_def caught_def logError_def init_continue_def initNavigation_def)
  have s: "map_option (\<lambda>a. listeners (page a))
      (init renderers_strict offline ?es (initial_state blank)) = Some ?ls"
    by (simp add: init_def init_start_def renderers_strict_def renderer_defs
          loadData_strict_def offline_def initial_state_def dataCache_get_def
          objectPrototypeKeys_def caught_def logError_def init_continue_def initNavigation_def)
  from t obtain a where a: "init renderers_tolerant offline ?es (initial_state blank) = Some a"
    and la: "listeners (page a) = ?ls" by auto
  from s obtain b where b: "init renderers_strict offline ?es (initial_state blank) = Some b"
    and lb: "listeners (page b) = ?ls" by auto
  have "tasks a = replicate 5 (Settled Fulfilled)"
    using navigation_after_all_settled [of offline ?es "initial_state blank" a] a i la by simp
  moreover have "tasks b = replicate 5 (Settled Fulfilled)"
    using navigation_after_all_settled [of offline ?es "initial_state blank" b] b i lb by simp
  ultimately show ?thesis
    using i t s a b by (simp add: numeral_eq_Suc)
qed

section \<open>Repeating groups\<close>

lemma getProp_withField:
  "getProp (withField k v kvs) k' = (if k' = k then Some v else getProp (JObj kvs) k')"
  by (simp add: withField_def update_conv')

lemma getPropOpt_JObj: "getProp (JObj kvs) k = Some (getPropOpt (JObj kvs) k)"
  by (simp add: getPropOpt_def)

lemma arrayOrEmpty_not_array: "\<not> isArray v \<Longrightarrow> arrayOrEmpty v = []"
  by (cases v) (simp_all add: isArray_def arrayOrEmpty_def)

lemma arrayOrEmpty_JArr: "arrayOrEmpty (JArr xs) = xs"
  by (simp add: arrayOrEmpty_def)

lemma mapJoin_Nil: "mapJoin f [] = Some []"
  by (simp add: mapJoin_def)

lemma fieldOr_withField:
  "k' \<noteq> k \<Longrightarrow> fieldOr (withField k v kvs) k' d = fieldOr (JObj kvs) k' d"
  by (simp add: fieldOr_def getProp_withField)

lemma about_paragraphs:
  assumes "\<not> isArray (getPropOpt (JObj kvs) ''paragraphs'')"
  shows "renderAbout_tolerant_body (JObj kvs) =
         renderAbout_tolerant_body (withField ''paragraphs'' (JArr []) kvs)"
proof -
  have "aboutTextHtml_tolerant (JObj kvs) =
        aboutTextHtml_tolerant (withField ''paragraphs'' (JArr []) kvs)"
    using assms
    by (simp add: aboutTextHtml_tolerant_def getProp_withField getPropOpt_JObj
          arrayOrEmpty_not_array arrayOrEmpty_JArr del: getProp.simps)
  then show ?thesis
    by (simp add: renderAbout_tolerant_body_def getProp_withField del: getProp.simps)
qed

lemma about_features:
  assumes "\<not> isArray (getPropOpt (JObj kvs) ''features'')"
  shows "renderAbout_tolerant_body (JObj kvs) =
         renderAbout_tolerant_body (withField ''features'' (JArr []) kvs)"
proof -
  have "aboutTextHtml_tolerant (JObj kvs) =
        aboutTextHtml_tolerant (withField ''features'' (JArr []) kvs)"
    using assms
    by (simp add: aboutTextHtml_tolerant_def getProp_withField getPropOpt_JObj
          arrayOrEmpty_not_array arrayOrEmpty_JArr del: getProp.simps)
  then show ?thesis
    by (simp add: renderAbout_tolerant_body_def getProp_withField del: getProp.simps)
qed

lemma menu_categories:
  assumes "\<not> isArray (getPropOpt (JObj kvs) ''categories'')"
  shows "renderMenu_tolerant_body (JObj kvs) =
         renderMenu_tolerant_body (withField ''categories'' (JArr []) kvs)"
proof -
  have "menuGridHtml_tolerant (JObj kvs) =
        menuGridHtml_tolerant (withField ''categories'' (JArr []) kvs)"
    using assms
    by (simp add: menuGridHtml_tolerant_def getProp_withField getPropOpt_JObj
          arrayOrEmpty_not_array arrayOrEmpty_JArr del: getProp.simps)
  then show ?thesis
    by (simp add: renderMenu_tolerant_body_def getProp_withField del: getProp.simps)
qed

lemma category_items:
  assumes "\<not> isArray (getPropOpt (JObj kvs) ''items'')"
  shows "categoryHtml_tolerant (JObj kvs) =
         categoryHtml_tolerant (withField ''items'' (JArr []) kvs)"
  using assms
  by (simp add: categoryHtml_tolerant_def getProp_withField getPropOpt_JObj
        arrayOrEmpty_not_array arrayOrEmpty_JArr fieldOr_withField del: getProp.simps)

lemma services_items:
  assumes "\<not> isArray (getPropOpt (JObj kvs) ''items'')"
  shows "renderServices_tolerant_body (JObj kvs) =
         renderServices_tolerant_body (withField ''items'' (JArr []) kvs)"
proof -
  have "servicesGridHtml_tolerant (JObj kvs) =
        servicesGridHtml_tolerant (withField ''items'' (JArr []) kvs)"
    using assms
    by (simp add: servicesGridHtml_tolerant_def getProp_withField getPropOpt_JObj
          arrayOrEmpty_not_array arrayOrEmpty_JArr del: getProp.simps)
  then show ?thesis
    by (simp add: renderServices_tolerant_body_def getProp_withField del: getProp.simps)
qed

lemma notACollection_details:
  assumes "notACollection d"
  shows "objectValues (orElse d (JObj [])) = Some []"
    and "phoneLink (orElse d (JObj [])) = Some (JStr ''#contact'')"
  using assms
  by (cases d; simp add: notACollection_def orElse_def phoneLink_def nullish_def)+

lemma contact_details:
  assumes "notACollection (getPropOpt (JObj kvs) ''details'')"
  shows "renderContact_tolerant_body (JObj kvs) =
         renderContact_tolerant_body (withField ''details'' (JObj []) kvs)"
proof -
  note n = notACollection_details [OF assms]
  have e: "objectValues (orElse (JObj []) (JObj [])) = Some []"
    "phoneLink (orElse (JObj []) (JObj [])) = Some (JStr ''#contact'')"
    by (simp_all add: orElse_def phoneLink_def nullish_def)
  have "contactHtml_tolerant (JObj kvs) =
        contactHtml_tolerant (withField ''details'' (JObj []) kvs)"
    by (simp add: contactHtml_tolerant_def details_tolerant_def getProp_withField
          getPropOpt_JObj n e del: getProp.simps)
  moreover have "ctaHtml_tolerant (JObj kvs) =
        ctaHtml_tolerant (withField ''details'' (JObj []) kvs)"
    by (simp add: ctaHtml_tolerant_def details_tolerant_def getProp_withField
          getPropOpt_JObj n e fieldOr_withField del: getProp.simps)
  ultimately show ?thesis
    by (simp add: renderContact_tolerant_body_def getProp_withField del: getProp.simps)
qed

lemma about_no_groups:
  assumes "\<not> isArray (getPropOpt (JObj kvs) ''paragraphs'')"
    and "\<not> isArray (getPropOpt (JObj kvs) ''features'')"
  shows "aboutTextHtml_tolerant (JObj kvs) = Some (nl 8 @ nl 8 @ nl 4)"
  using assms
  by (simp add: aboutTextHtml_tolerant_def getPropOpt_JObj arrayOrEmpty_not_array mapJoin_Nil
        del: getProp.simps)

lemma menu_no_categories:
  assumes "\<not> isArray (getPropOpt (JObj kvs) ''categories'')"
  shows "menuGridHtml_tolerant (JObj kvs) = Some []"
  using assms
  by (simp add: menuGridHtml_tolerant_def getPropOpt_JObj arrayOrEmpty_not_array mapJoin_Nil
        del: getProp.simps)

lemma services_no_items:
  assumes "\<not> isArray (getPropOpt (JObj kvs) ''items'')"
  shows "servicesGridHtml_tolerant (JObj kvs) = Some []"
  using assms
  by (simp add: servicesGridHtml_tolerant_def getPropOpt_JObj arrayOrEmpty_not_array mapJoin_Nil
        del: getProp.simps)

lemma contact_no_details:
  assumes "notACollection (getPropOpt (JObj kvs) ''details'')"
  shows "contactHtml_tolerant (JObj kvs) = Some []"
  using notACollection_details [OF assms]
  by (simp add: contactHtml_tolerant_def details_tolerant_def getPropOpt_JObj mapJoin_Nil
        del: getProp.simps)

text \<open>
  What the copy \<^verbatim>\<open>part_000\<close> does for a group. A document whose \<^verbatim>\<open>paragraphs\<close>,
  \<^verbatim>\<open>features\<close>, \<^verbatim>\<open>categories\<close> or \<^verbatim>\<open>items\<close> is missing or is not an array is
  rendered exactly as the same document with the empty array there, and so is a category
  without an array of \<^verbatim>\<open>items\<close>; the group's markup is empty and nothing is thrown for
  it. A contact document whose \<^verbatim>\<open>details\<close> is missing, \<^verbatim>\<open>null\<close>, a boolean, a
  number or the empty string is rendered as with the empty mapping, with no entry.
\<close>

theorem missing_group_as_empty:
  "(\<not> isArray (getPropOpt (JObj kvs) ''paragraphs'') \<longrightarrow>
      renderAbout_tolerant_body (JObj kvs) =
      renderAbout_tolerant_body (withField ''paragraphs'' (JArr []) kvs)) \<and>
   (\<not> isArray (getPropOpt (JObj kvs) ''features'') \<longrightarrow>
      renderAbout_tolerant_body (JObj kvs) =
      renderAbout_tolerant_body (withField ''features'' (JArr []) kvs)) \<and>
   (\<not> isArray (getPropOpt (JObj kvs) ''paragraphs'') \<and>
    \<not> isArray (getPropOpt (JObj kvs) ''features'') \<longrightarrow>
      aboutTextHtml_tolerant (JObj kvs) = Some (nl 8 @ nl 8 @ nl 4)) \<and>
   (\<not> isArray (getPropOpt (JObj kvs) ''categories'') \<longrightarrow>
      renderMenu_tolerant_body (JObj kvs) =
      renderMenu_tolerant_body (withField ''categories'' (JArr []) kvs) \<and>
      menuGridHtml_tolerant (JObj kvs) = Some []) \<and>
   (\<not> isArray (getPropOpt (JObj kvs) ''items'') \<longrightarrow>
      categoryHtml_tolerant (JObj kvs) =
      categoryHtml_tolerant (withField ''items'' (JArr []) kvs) \<and>
      renderServices_tolerant_body (JObj kvs) =
      renderServices_tolerant_body (withField ''items'' (JArr []) kvs) \<and>
      servicesGridHtml_tolerant (JObj kvs) = Some []) \<and>
   (notACollection (getPropOpt (JObj kvs) ''details'') \<longrightarrow>
      renderContact_tolerant_body (JObj kvs) =
      renderContact_tolerant_body (withField ''details'' (JObj []) kvs) \<and>
      contactHtml_tolerant (JObj kvs) = Some [])"
  using about_paragraphs [of kvs] about_features [of kvs] about_no_groups [of kvs]
    menu_categories [of kvs] menu_no_categories [of kvs] category_items [of kvs]
    services_items [of kvs] services_no_items [of kvs] contact_details [of kvs]
    contact_no_details [of kvs]
  by blast

theorem missing_group_as_empty_witness:
  "\<not> isArray (getPropOpt (JObj [(''title'', JStr ''Hello'')]) ''paragraphs'') \<and>
   \<not> isArray (getPropOpt (JObj [(''title'', JStr ''Hello'')]) ''features'') \<and>
   \<not> isArray (getPropOpt (JObj [(''title'', JStr ''Hello'')]) ''categories'') \<and>
   \<not> isArray (getPropOpt (JObj [(''title'', JStr ''Hello'')]) ''items'') \<and>
   notACollection (getPropOpt (JObj [(''title'', JStr ''Hello'')]) ''details'') \<and>
   renderAbout_tolerant_body (JObj [(''title'', JStr ''Hello'')]) =
     renderAbout_tolerant_body (withField ''features'' (JArr []) [(''title'', JStr ''Hello'')]) \<and>
   aboutTextHtml_tolerant (JObj [(''title'', JStr ''Hello'')]) = Some (nl 8 @ nl 8 @ nl 4) \<and>
   menuGridHtml_tolerant (JObj [(''title'', JStr ''Hello'')]) = Some [] \<and>
   servicesGridHtml_tolerant (JObj [(''title'', JStr ''Hello'')]) = Some [] \<and>
   contactHtml_tolerant (JObj [(''title'', JStr ''Hello'')]) = Some [] \<and>
   renderAbout_tolerant_body (JObj [(''title'', JStr ''Hello'')]) (initial_state blank) =
     (\<lparr>dataCache = [],
       dom = blank(''#about h2'' := TextContent ''Hello'',
                   ''#about .about-text'' := InnerHTML (nl 8 @ nl 8 @ nl 4)),
       console = [], requests = [], listeners = []\<rparr>, Fulfilled)"
proof -
  have h: "\<not> isArray (getPropOpt (JObj [(''title'', JStr ''Hello'')]) ''paragraphs'')"
      "\<not> isArray (getPropOpt (JObj [(''title'', JStr ''Hello'')]) ''features'')"
      "\<not> isArray (getPropOpt (JObj [(''title'', JStr ''Hello'')]) ''categories'')"
      "\<not> isArray (getPropOpt (JObj [(''title'', JStr ''Hello'')]) ''items'')"
      "notACollection (getPropOpt (JObj [(''title'', JStr ''Hello'')]) ''details'')"
    by (simp_all add: getPropOpt_def isArray_def notACollection_def)
  note t = missing_group_as_empty [of "[(''title'', JStr ''Hello'')]"]
  from t h have a: "aboutTextHtml_tolerant (JObj [(''title'', JStr ''Hello'')]) =
      Some (nl 8 @ nl 8 @ nl 4)"
    by blast
  have r: "renderAbout_tolerant_body (JObj [(''title'', JStr ''Hello'')]) (initial_state blank) =
     (\<lparr>dataCache = [],
       dom = blank(''#about h2'' := TextContent ''Hello'',
                   ''#about .about-text'' := InnerHTML (nl 8 @ nl 8 @ nl 4)),
       console = [], requests = [], listeners = []\<rparr>, Fulfilled)"
    by (simp add: renderAbout_tolerant_body_def a assignText_def assignHTML_def domString_def
          nullish_def orElse_def initial_state_def)
  show ?thesis using t h a r by blast
qed

text \<open>
  C3 asks that a missing group be rendered as an empty one, without an error. In
  \<^verbatim>\<open>src/js/app.js\<close> an about document without \<^verbatim>\<open>features\<close> makes \<^verbatim>\<open>renderAbout\<close>
  throw after the heading is written: the promise is rejected and the text of the section
  is not written.
\<close>

theorem renderAbout_strict_throws_without_features:
  "snd (renderAbout_strict_body
          (JObj [(''title'', JStr ''About Us''), (''paragraphs'', JArr [JStr ''Welcome''])])
          (initial_state blank)) = Rejected \<and>
   dom (fst (renderAbout_strict_body
          (JObj [(''title'', JStr ''About Us''), (''paragraphs'', JArr [JStr ''Welcome''])])
          (initial_state blank))) ''#about .about-text'' = TextContent []"
  by (simp add: renderAbout_strict_body_def assignText_def assignHTML_def domString_def
        nullish_def aboutTextHtml_strict_def arrayMapJoin_def mapJoin_def initial_state_def
        blank_def)

text \<open>A string for \<^verbatim>\<open>details\<close> gives one entry for each of its characters.\<close>

lemma details_string_one_entry_per_character:
  "contactHtml_tolerant (JObj [(''details'', JStr ''ab'')]) =
     mapJoin contactItemHtml_tolerant [JStr ''a'', JStr ''b'']"
  by (simp add: contactHtml_tolerant_def details_tolerant_def orElse_def)

section \<open>Display fields\<close>

lemma fieldOr_resolved: "fieldOr (JObj kvs) k d = resolved kvs k d"
  by (simp add: fieldOr_def resolved_def blankField_def getPropOpt_def orElse_def)

lemma feature_resolved:
  \<open>featureHtml_tolerant (JObj kvs) = do {
     icon \<leftarrow> resolved kvs ''icon'' [];
     text \<leftarrow> resolved kvs ''text'' [];
     Some (nl 12 @ ''<div class="feature">'' @
           nl 16 @ ''<span class="feature-icon">'' @ icon @ ''</span>'' @
           nl 16 @ ''<span>'' @ text @ ''</span>'' @
           nl 12 @ ''</div>'' @ nl 8) }\<close>
  by (simp add: featureHtml_tolerant_def fieldOr_resolved)

lemma dish_resolved:
  \<open>dishHtml_tolerant (JObj kvs) = do {
     name \<leftarrow> resolved kvs ''name'' [];
     description \<leftarrow> resolved kvs ''description'' [];
     Some (nl 28 @ ''<li>'' @
           nl 32 @ ''<span class="dish-name">'' @ name @ ''</span>'' @
           nl 32 @ ''<span class="dish-desc">'' @ description @ ''</span>'' @
           nl 28 @ ''</li>'' @ nl 24) }\<close>
  by (simp add: dishHtml_tolerant_def fieldOr_resolved)

lemma service_resolved:
  \<open>serviceHtml_tolerant (JObj kvs) = do {
     icon \<leftarrow> resolved kvs ''icon'' [];
     name \<leftarrow> resolved kvs ''name'' [];
     description \<leftarrow> resolved kvs ''description'' [];
     Some (nl 12 @ ''<div class="service-card">'' @
           nl 16 @ ''<div class="service-icon">'' @ icon @ ''</div>'' @
           nl 16 @ ''<h3>'' @ name @ ''</h3>'' @
           nl 16 @ ''<p>'' @ description @ ''</p>'' @
           nl 12 @ ''</div>'' @ nl 8) }\<close>
  by (simp add: serviceHtml_tolerant_def fieldOr_resolved)

lemma contactItem_resolved:
  \<open>contactItemHtml_tolerant (JObj kvs) = do {
     icon \<leftarrow> resolved kvs ''icon'' [];
     label \<leftarrow> resolved kvs ''label'' [];
     shown \<leftarrow>
       (if blankField kvs ''link'' then resolved kvs ''value'' []
        else do { href \<leftarrow> toStr (getPropOpt (JObj kvs) ''link'');
                  v \<leftarrow> resolved kvs ''value'' [];
                  Some (''<a href="'' @ href @ ''">'' @ v @ ''</a>'') });
     Some (nl 12 @ ''<div class="contact-item">'' @
           nl 16 @ ''<span class="contact-icon">'' @ icon @ ''</span>'' @
           nl 16 @ ''<div>'' @
           nl 20 @ ''<h4>'' @ label @ ''</h4>'' @
           nl 20 @ ''<p>'' @ shown @ ''</p>'' @
           nl 16 @ ''</div>'' @
           nl 12 @ ''</div>'' @ nl 8) }\<close>
  by (simp add: contactItemHtml_tolerant_def fieldOr_resolved getPropOpt_JObj blankField_def
        del: getProp.simps cong: if_cong)

lemma category_resolved:
  \<open>categoryHtml_tolerant (JObj kvs) = do {
     itemsHtml \<leftarrow> mapJoin dishHtml_tolerant (arrayOrEmpty (getPropOpt (JObj kvs) ''items''));
     name \<leftarrow> resolved kvs ''name'' ''Menu'';
     Some (nl 16 @ ''<div class="menu-category">'' @
           nl 20 @ ''<h3>'' @ name @ ''</h3>'' @
           nl 20 @ ''<ul>'' @
           nl 24 @ itemsHtml @
           nl 20 @ ''</ul>'' @
           nl 16 @ ''</div>'' @ nl 12) }\<close>
proof (cases "mapJoin dishHtml_tolerant (arrayOrEmpty (getPropOpt (JObj kvs) ''items''))")
  case None
  then show ?thesis
    by (cases "resolved kvs ''name'' ''Menu''")
      (simp_all add: categoryHtml_tolerant_def fieldOr_resolved getPropOpt_JObj
        del: getProp.simps)
next
  case (Some a)
  then show ?thesis
    by (simp add: categoryHtml_tolerant_def fieldOr_resolved getPropOpt_JObj
        del: getProp.simps)
qed

lemma cta_resolved:
  \<open>ctaHtml_tolerant (JObj kvs) = do {
     link \<leftarrow> Option.bind (details_tolerant (JObj kvs)) phoneLink;
     cta_text \<leftarrow> resolved kvs ''cta_text'' [];
     href \<leftarrow> toStr link;
     cta_button \<leftarrow> resolved kvs ''cta_button'' ''Contact Us'';
     Some (nl 8 @ ''<p>'' @ cta_text @ ''</p>'' @
           nl 8 @ ''<a href="'' @ href @ ''" class="cta-button">'' @ cta_button @ ''</a>'' @
           nl 4) }\<close>
  by (simp add: ctaHtml_tolerant_def fieldOr_resolved)

text \<open>
  C5, as the renderers with fallbacks (the copy \<^verbatim>\<open>part_000\<close>) have it. In the markup
  of a feature, a dish, a service card and a contact entry, each display field
  (\<^verbatim>\<open>icon\<close>, \<^verbatim>\<open>text\<close>, \<^verbatim>\<open>name\<close>, \<^verbatim>\<open>description\<close>, \<^verbatim>\<open>label\<close>,
  \<^verbatim>\<open>value\<close>) is the empty string when the field is absent, \<^verbatim>\<open>null\<close> or otherwise
  falsy, and the field's own text otherwise; so is \<^verbatim>\<open>cta_text\<close> in the call-to-action.
  A contact entry has an anchor around its value exactly when its \<^verbatim>\<open>link\<close> is truthy.
  Two fields have a text of their own instead of the empty string: the name of a category
  is then \<^verbatim>\<open>Menu\<close>, and \<^verbatim>\<open>cta_button\<close> is \<^verbatim>\<open>Contact Us\<close>. The last four
  conjuncts write out the markup of an item all of whose fields are blank: nothing stands
  between the tags, so neither \<^verbatim>\<open>undefined\<close> nor \<^verbatim>\<open>null\<close> reaches the markup.
\<close>

theorem absent_field_as_empty_string:
  \<open>featureHtml_tolerant (JObj kvs) = do {
       icon \<leftarrow> (if blankField kvs ''icon'' then Some [] else toStr (getPropOpt (JObj kvs) ''icon''));
       text \<leftarrow> (if blankField kvs ''text'' then Some [] else toStr (getPropOpt (JObj kvs) ''text''));
       Some (nl 12 @ ''<div class="feature">'' @
             nl 16 @ ''<span class="feature-icon">'' @ icon @ ''</span>'' @
             nl 16 @ ''<span>'' @ text @ ''</span>'' @
             nl 12 @ ''</div>'' @ nl 8) } \<and>
   dishHtml_tolerant (JObj kvs) = do {
       name \<leftarrow> (if blankField kvs ''name'' then Some [] else toStr (getPropOpt (JObj kvs) ''name''));
       description \<leftarrow> (if blankField kvs ''description'' then Some [] else toStr (getPropOpt (JObj kvs) ''description''));
       Some (nl 28 @ ''<li>'' @
             nl 32 @ ''<span class="dish-name">'' @ name @ ''</span>'' @
             nl 32 @ ''<span class="dish-desc">'' @ description @ ''</span>'' @
             nl 28 @ ''</li>'' @ nl 24) } \<and>
   serviceHtml_tolerant (JObj kvs) = do {
       icon \<leftarrow> (if blankField kvs ''icon'' then Some [] else toStr (getPropOpt (JObj kvs) ''icon''));
       name \<leftarrow> (if blankField kvs ''name'' then Some [] else toStr (getPropOpt (JObj kvs) ''name''));
       description \<leftarrow> (if blankField kvs ''description'' then Some [] else toStr (getPropOpt (JObj kvs) ''description''));
       Some (nl 12 @ ''<div class="service-card">'' @
             nl 16 @ ''<div class="service-icon">'' @ icon @ ''</div>'' @
             nl 16 @ ''<h3>'' @ name @ ''</h3>'' @
             nl 16 @ ''<p>'' @ description @ ''</p>'' @
             nl 12 @ ''</div>'' @ nl 8) } \<and>
   contactItemHtml_tolerant (JObj kvs) = do {
       icon \<leftarrow> (if blankField kvs ''icon'' then Some [] else toStr (getPropOpt (JObj kvs) ''icon''));
       label \<leftarrow> (if blankField kvs ''label'' then Some [] else toStr (getPropOpt (JObj kvs) ''label''));
       shown \<leftarrow>
         (if blankField kvs ''link''
          then (if blankField kvs ''value'' then Some [] else toStr (getPropOpt (JObj kvs) ''value''))
          else do { href \<leftarrow> toStr (getPropOpt (JObj kvs) ''link'');
                    v \<leftarrow> (if blankField kvs ''value'' then Some [] else toStr (getPropOpt (JObj kvs) ''value''));
                    Some (''<a href="'' @ href @ ''">'' @ v @ ''</a>'') });
       Some (nl 12 @ ''<div class="contact-item">'' @
             nl 16 @ ''<span class="contact-icon">'' @ icon @ ''</span>'' @
             nl 16 @ ''<div>'' @
             nl 20 @ ''<h4>'' @ label @ ''</h4>'' @
             nl 20 @ ''<p>'' @ shown @ ''</p>'' @
             nl 16 @ ''</div>'' @
             nl 12 @ ''</div>'' @ nl 8) } \<and>
   ctaHtml_tolerant (JObj kvs) = do {
       link \<leftarrow> Option.bind (details_tolerant (JObj kvs)) phoneLink;
       cta_text \<leftarrow> (if blankField kvs ''cta_text'' then Some [] else toStr (getPropOpt (JObj kvs) ''cta_text''));
       href \<leftarrow> toStr link;
       cta_button \<leftarrow> (if blankField kvs ''cta_button'' then Some ''Contact Us'' else toStr (getPropOpt (JObj kvs) ''cta_button''));
       Some (nl 8 @ ''<p>'' @ cta_text @ ''</p>'' @
             nl 8 @ ''<a href="'' @ href @ ''" class="cta-button">'' @ cta_button @ ''</a>'' @
             nl 4) } \<and>
   categoryHtml_tolerant (JObj kvs) = do {
       itemsHtml \<leftarrow> mapJoin dishHtml_tolerant (arrayOrEmpty (getPropOpt (JObj kvs) ''items''));
       name \<leftarrow> (if blankField kvs ''name'' then Some ''Menu'' else toStr (getPropOpt (JObj kvs) ''name''));
       Some (nl 16 @ ''<div class="menu-category">'' @
             nl 20 @ ''<h3>'' @ name @ ''</h3>'' @
             nl 20 @ ''<ul>'' @
             nl 24 @ itemsHtml @
             nl 20 @ ''</ul>'' @
             nl 16 @ ''</div>'' @ nl 12) } \<and>
   (blankField kvs ''icon'' \<and> blankField kvs ''text'' \<longrightarrow>
      featureHtml_tolerant (JObj kvs) =
        Some (nl 12 @ ''<div class="feature">'' @
              nl 16 @ ''<span class="feature-icon"></span>'' @
              nl 16 @ ''<span></span>'' @
              nl 12 @ ''</div>'' @ nl 8)) \<and>
   (blankField kvs ''name'' \<and> blankField kvs ''description'' \<longrightarrow>
      dishHtml_tolerant (JObj kvs) =
        Some (nl 28 @ ''<li>'' @
              nl 32 @ ''<span class="dish-name"></span>'' @
              nl 32 @ ''<span class="dish-desc"></span>'' @
              nl 28 @ ''</li>'' @ nl 24)) \<and>
   (blankField kvs ''icon'' \<and> blankField kvs ''name'' \<and> blankField kvs ''description'' \<longrightarrow>
      serviceHtml_tolerant (JObj kvs) =
        Some (nl 12 @ ''<div class="service-card">'' @
              nl 16 @ ''<div class="service-icon"></div>'' @
              nl 16 @ ''<h3></h3>'' @
              nl 16 @ ''<p></p>'' @
              nl 12 @ ''</div>'' @ nl 8)) \<and>
   (blankField kvs ''icon'' \<and> blankField kvs ''label'' \<and> blankField kvs ''value'' \<and>
    blankField kvs ''link'' \<longrightarrow>
      contactItemHtml_tolerant (JObj kvs) =
        Some (nl 12 @ ''<div class="contact-item">'' @
              nl 16 @ ''<span class="contact-icon"></span>'' @
              nl 16 @ ''<div>'' @
              nl 20 @ ''<h4></h4>'' @
              nl 20 @ ''<p></p>'' @
              nl 16 @ ''</div>'' @
              nl 12 @ ''</div>'' @ nl 8))\<close>
  using feature_resolved [of kvs] dish_resolved [of kvs] service_resolved [of kvs]
    contactItem_resolved [of kvs] cta_resolved [of kvs] category_resolved [of kvs]
  by (simp add: resolved_def)

text \<open>
  The items without any field, and a feature whose icon is \<^verbatim>\<open>null\<close> and whose text is
  \<^verbatim>\<open>Fresh\<close>.
\<close>

theorem absent_field_as_empty_string_witness:
  \<open>blankField [] ''icon'' \<and> blankField [] ''text'' \<and> blankField [] ''name'' \<and>
   blankField [] ''description'' \<and> blankField [] ''label'' \<and> blankField [] ''value'' \<and>
   blankField [] ''link'' \<and>
   featureHtml_tolerant (JObj []) =
     Some (nl 12 @ ''<div class="feature">'' @
           nl 16 @ ''<span class="feature-icon"></span>'' @
           nl 16 @ ''<span></span>'' @
           nl 12 @ ''</div>'' @ nl 8) \<and>
   dishHtml_tolerant (JObj []) =
     Some (nl 28 @ ''<li>'' @
           nl 32 @ ''<span class="dish-name"></span>'' @
           nl 32 @ ''<span class="dish-desc"></span>'' @
           nl 28 @ ''</li>'' @ nl 24) \<and>
   serviceHtml_tolerant (JObj []) =
     Some (nl 12 @ ''<div class="service-card">'' @
           nl 16 @ ''<div class="service-icon"></div>'' @
           nl 16 @ ''<h3></h3>'' @
           nl 16 @ ''<p></p>'' @
           nl 12 @ ''</div>'' @ nl 8) \<and>
   contactItemHtml_tolerant (JObj []) =
     Some (nl 12 @ ''<div class="contact-item">'' @
           nl 16 @ ''<span class="contact-icon"></span>'' @
           nl 16 @ ''<div>'' @
           nl 20 @ ''<h4></h4>'' @
           nl 20 @ ''<p></p>'' @
           nl 16 @ ''</div>'' @
           nl 12 @ ''</div>'' @ nl 8) \<and>
   featureHtml_tolerant (JObj [(''icon'', JNull), (''text'', JStr ''Fresh'')]) =
     Some (nl 12 @ ''<div class="feature">'' @
           nl 16 @ ''<span class="feature-icon"></span>'' @
           nl 16 @ ''<span>Fresh</span>'' @
           nl 12 @ ''</div>'' @ nl 8)\<close>
proof -
  have h: "blankField [] ''icon''" "blankField [] ''text''" "blankField [] ''name''"
      "blankField [] ''description''" "blankField [] ''label''" "blankField [] ''value''"
      "blankField [] ''link''"
    by (simp_all add: blankField_def getPropOpt_def)
  note t = absent_field_as_empty_string [of "[]"]
  have b: "blankField [(''icon'', JNull), (''text'', JStr ''Fresh'')] ''icon''"
      "\<not> blankField [(''icon'', JNull), (''text'', JStr ''Fresh'')] ''text''"
      "toStr (getPropOpt (JObj [(''icon'', JNull), (''text'', JStr ''Fresh'')]) ''text'') =
         Some ''Fresh''"
    by (simp_all add: blankField_def getPropOpt_def)
  have u: \<open>featureHtml_tolerant (JObj [(''icon'', JNull), (''text'', JStr ''Fresh'')]) =
     Some (nl 12 @ ''<div class="feature">'' @
           nl 16 @ ''<span class="feature-icon"></span>'' @
           nl 16 @ ''<span>Fresh</span>'' @
           nl 12 @ ''</div>'' @ nl 8)\<close>
    using absent_field_as_empty_string [of "[(''icon'', JNull), (''text'', JStr ''Fresh'')]"]
    by (simp add: b)
  show ?thesis using h t u by blast
qed

text \<open>
  A category without a name is headed \<^verbatim>\<open>Menu\<close>, not the empty string.
\<close>

theorem absent_field_as_empty_string_counterexample:
  \<open>categoryHtml_tolerant (JObj []) =
     Some (nl 16 @ ''<div class="menu-category">'' @
           nl 20 @ ''<h3>Menu</h3>'' @
           nl 20 @ ''<ul>'' @
           nl 24 @
           nl 20 @ ''</ul>'' @
           nl 16 @ ''</div>'' @ nl 12)\<close>
  by (simp add: categoryHtml_tolerant_def fieldOr_def orElse_def arrayOrEmpty_def mapJoin_def)

text \<open>
  In \<^verbatim>\<open>src/js/app.js\<close>, which has no fallback, a service card without fields shows
  \<^verbatim>\<open>undefined\<close> three times.
\<close>

lemma serviceHtml_strict_prints_undefined:
  \<open>serviceHtml_strict (JObj []) =
     Some (nl 12 @ ''<div class="service-card">'' @
           nl 16 @ ''<div class="service-icon">undefined</div>'' @
           nl 16 @ ''<h3>undefined</h3>'' @
           nl 16 @ ''<p>undefined</p>'' @
           nl 12 @ ''</div>'' @ nl 8)\<close>
  by (simp add: serviceHtml_strict_def field_def)

section \<open>The call-to-action link\<close>

lemma getProp_truthy: "truthy v \<Longrightarrow> getProp v k = Some (getPropOpt v k)"
  by (cases v) (simp_all add: getPropOpt_def)

lemma getPropOpt_falsy: "\<not> truthy v \<Longrightarrow> k \<noteq> ''link'' \<Longrightarrow> getPropOpt v k = JUndefined"
  by (cases v) (simp_all add: getPropOpt_def)

lemma getPropOpt_nullish: "nullish v \<Longrightarrow> getPropOpt v k = JUndefined"
  by (auto simp: nullish_def getPropOpt_def)

lemma getProp_not_nullish: "\<not> nullish v \<Longrightarrow> getProp v k = Some (getPropOpt v k)"
  by (cases v) (simp_all add: getPropOpt_def nullish_def)

lemma phoneLink_orElse:
  "phoneLink (orElse d (JObj [])) =
     Some (orElse (getPropOpt (getPropOpt d ''phone'') ''link'') (JStr ''#contact''))"
proof (cases "truthy d")
  case True
  then have "phoneLink (orElse d (JObj [])) =
      Some (orElse (if nullish (getPropOpt d ''phone'') then JUndefined
                    else getPropOpt (getPropOpt d ''phone'') ''link'') (JStr ''#contact''))"
    by (simp add: phoneLink_def orElse_def getProp_truthy del: getProp.simps)
  then show ?thesis
    by (cases "nullish (getPropOpt d ''phone'')") (simp_all add: getPropOpt_nullish)
next
  case False
  then have "getPropOpt d ''phone'' = JUndefined" by (simp add: getPropOpt_falsy)
  with False show ?thesis
    by (simp add: phoneLink_def orElse_def nullish_def getPropOpt_def)
qed

lemma phoneLink_resolved:
  assumes "truthy contact"
  shows "Option.bind (details_tolerant contact) phoneLink =
     Some (orElse (nestedPhoneLink contact) (JStr ''#contact''))"
  using assms
  by (simp add: details_tolerant_def getProp_truthy phoneLink_orElse nestedPhoneLink_def
        del: getProp.simps)

lemma ctaHtml_tolerant_Some:
  assumes "truthy contact" "ctaHtml_tolerant contact = Some html"
  shows \<open>\<exists>cta_text href cta_button.
     toStr (orElse (nestedPhoneLink contact) (JStr ''#contact'')) = Some href \<and>
     html = nl 8 @ ''<p>'' @ cta_text @ ''</p>'' @
            nl 8 @ ''<a href="'' @ href @ ''" class="cta-button">'' @ cta_button @ ''</a>'' @
            nl 4\<close>
proof -
  from assms(1) have d: "details_tolerant contact = Some (orElse (getPropOpt contact ''details'') (JObj []))"
    by (simp add: details_tolerant_def getProp_truthy del: getProp.simps)
  have l: "phoneLink (orElse (getPropOpt contact ''details'') (JObj [])) =
      Some (orElse (nestedPhoneLink contact) (JStr ''#contact''))"
    by (simp add: phoneLink_orElse nestedPhoneLink_def)
  from assms(2) show ?thesis
    by (auto simp: ctaHtml_tolerant_def d l bind_eq_Some_conv)
qed

lemma runAll_three_Fulfilled:
  assumes "runAll [assignText s1 v, assignHTML s2 m2, assignHTML s3 m3] st = (st', Fulfilled)"
  shows "\<exists>html. m3 = Some html \<and> dom st' s3 = InnerHTML html"
  using assms
  by (auto simp: assignText_def assignHTML_def split: option.splits)

text \<open>
  What the copy \<^verbatim>\<open>part_000\<close> does for the link. For every contact document that
  passes the guard, resolving the link of the call-to-action never throws: it gives the nested
  \<^verbatim>\<open>details.phone.link\<close> when that is truthy, and \<^verbatim>\<open>#contact\<close> when it is absent,
  \<^verbatim>\<open>null\<close>, empty or otherwise falsy, or when the \<^verbatim>\<open>phone\<close> entry or \<^verbatim>\<open>details\<close>
  is. Whenever the renderer is fulfilled, the call-to-action element holds the markup
  with that target. A document without \<^verbatim>\<open>details\<close> has no entry, and none throws.
\<close>

theorem cta_link_target:
  \<open>truthy contact \<longrightarrow>
     Option.bind (details_tolerant contact) phoneLink =
       Some (orElse (nestedPhoneLink contact) (JStr ''#contact'')) \<and>
     (\<forall>st st'. renderContact_tolerant_body contact st = (st', Fulfilled) \<longrightarrow>
        (\<exists>cta_text href cta_button.
           toStr (orElse (nestedPhoneLink contact) (JStr ''#contact'')) = Some href \<and>
           dom st' ''#contact .contact-cta'' =
             InnerHTML (nl 8 @ ''<p>'' @ cta_text @ ''</p>'' @
                        nl 8 @ ''<a href="'' @ href @ ''" class="cta-button">'' @
                        cta_button @ ''</a>'' @ nl 4))) \<and>
     (\<not> truthy (getPropOpt contact ''details'') \<longrightarrow> contactHtml_tolerant contact = Some [])\<close>
  (is "?H \<longrightarrow> ?A \<and> ?B \<and> ?C")
proof
  assume t: ?H
  have a: ?A using t by (rule phoneLink_resolved)
  have b: ?B
  proof (intro allI impI)
    fix st st'
    assume "renderContact_tolerant_body contact st = (st', Fulfilled)"
    then obtain html where "ctaHtml_tolerant contact = Some html"
      and "dom st' ''#contact .contact-cta'' = InnerHTML html"
      unfolding renderContact_tolerant_body_def
      using runAll_three_Fulfilled by blast
    with ctaHtml_tolerant_Some [OF t]
    show \<open>\<exists>cta_text href cta_button.
           toStr (orElse (nestedPhoneLink contact) (JStr ''#contact'')) = Some href \<and>
           dom st' ''#contact .contact-cta'' =
             InnerHTML (nl 8 @ ''<p>'' @ cta_text @ ''</p>'' @
                        nl 8 @ ''<a href="'' @ href @ ''" class="cta-button">'' @
                        cta_button @ ''</a>'' @ nl 4)\<close>
      by fastforce
  qed
  have c: ?C
    using t
    by (simp add: contactHtml_tolerant_def details_tolerant_def getProp_truthy orElse_def
          mapJoin_def del: getProp.simps)
  from a b c show "?A \<and> ?B \<and> ?C" by blast
qed

theorem cta_link_target_witness:
  \<open>truthy (JObj [(''details'', JObj [(''phone'',
       JObj [(''icon'', JStr ''T''), (''label'', JStr ''Phone''), (''value'', JStr ''123''),
             (''link'', JStr ''tel:123'')])])]) \<and>
   Option.bind (details_tolerant (JObj [(''details'', JObj [(''phone'',
       JObj [(''icon'', JStr ''T''), (''label'', JStr ''Phone''), (''value'', JStr ''123''),
             (''link'', JStr ''tel:123'')])])])) phoneLink = Some (JStr ''tel:123'') \<and>
   snd (renderContact_tolerant_body (JObj [(''details'', JObj [(''phone'',
       JObj [(''icon'', JStr ''T''), (''label'', JStr ''Phone''), (''value'', JStr ''123''),
             (''link'', JStr ''tel:123'')])])]) (initial_state blank)) = Fulfilled \<and>
   dom (fst (renderContact_tolerant_body (JObj [(''details'', JObj [(''phone'',
       JObj [(''icon'', JStr ''T''), (''label'', JStr ''Phone''), (''value'', JStr ''123''),
             (''link'', JStr ''tel:123'')])])]) (initial_state blank))) ''#contact .contact-cta'' =
     InnerHTML (nl 8 @ ''<p></p>'' @
                nl 8 @ ''<a href="tel:123" class="cta-button">Contact Us</a>'' @ nl 4) \<and>
   truthy (JObj [(''title'', JStr ''Contact'')]) \<and>
   \<not> truthy (getPropOpt (JObj [(''title'', JStr ''Contact'')]) ''details'') \<and>
   Option.bind (details_tolerant (JObj [(''title'', JStr ''Contact'')])) phoneLink =
     Some (JStr ''#contact'') \<and>
   contactHtml_tolerant (JObj [(''title'', JStr ''Contact'')]) = Some []\<close>
proof -
  let ?c = "JObj [(''details'', JObj [(''phone'',
       JObj [(''icon'', JStr ''T''), (''label'', JStr ''Phone''), (''value'', JStr ''123''),
             (''link'', JStr ''tel:123'')])])]"
  let ?d = "JObj [(''title'', JStr ''Contact'')]"
  have h: "truthy ?c" "truthy ?d" "\<not> truthy (getPropOpt ?d ''details'')"
    by (simp_all add: getPropOpt_def)
  have n: "orElse (nestedPhoneLink ?c) (JStr ''#contact'') = JStr ''tel:123''"
      "orElse (nestedPhoneLink ?d) (JStr ''#contact'') = JStr ''#contact''"
    by (simp_all add: nestedPhoneLink_def getPropOpt_def orElse_def)
  note t = cta_link_target [of ?c, rule_format, OF h(1)]
    and u = cta_link_target [of ?d, rule_format, OF h(2)]
  have a: "Option.bind (details_tolerant ?c) phoneLink = Some (JStr ''tel:123'')"
    using t n by simp
  have b: "Option.bind (details_tolerant ?d) phoneLink = Some (JStr ''#contact'')"
    using u n by simp
  have c: "contactHtml_tolerant ?d = Some []"
    using u h(3) by blast
  obtain html where i: "contactHtml_tolerant ?c = Some html"
    by (simp add: contactHtml_tolerant_def details_tolerant_def contactItemHtml_tolerant_def
          fieldOr_def orElse_def mapJoin_def)
  have k: \<open>ctaHtml_tolerant ?c =
      Some (nl 8 @ ''<p></p>'' @
            nl 8 @ ''<a href="tel:123" class="cta-button">Contact Us</a>'' @ nl 4)\<close>
    by (simp add: ctaHtml_tolerant_def details_tolerant_def phoneLink_def fieldOr_def
          orElse_def nullish_def getPropOpt_def)
  have r: \<open>snd (renderContact_tolerant_body ?c (initial_state blank)) = Fulfilled \<and>
      dom (fst (renderContact_tolerant_body ?c (initial_state blank))) ''#contact .contact-cta'' =
        InnerHTML (nl 8 @ ''<p></p>'' @
                nl 8 @ ''<a href="tel:123" class="cta-button">Contact Us</a>'' @ nl 4)\<close>
    by (simp add: renderContact_tolerant_body_def i k assignText_def assignHTML_def
          domString_def nullish_def orElse_def)
  show ?thesis using h a b c r by blast
qed

text \<open>
  C6 asks that the call-to-action link to \<^verbatim>\<open>details.phone.link\<close>, or to a same-page
  anchor when that is absent, without a fault. In \<^verbatim>\<open>src/js/app.js\<close> a contact document
  without a \<^verbatim>\<open>phone\<close> entry makes \<^verbatim>\<open>renderContact\<close> throw on
  \<^verbatim>\<open>details.phone.link\<close>: the promise is rejected and the call-to-action is not
  written.
\<close>

theorem renderContact_strict_throws_without_phone:
  "ctaHtml_strict
     (JObj [(''title'', JStr ''Contact''),
            (''details'', JObj [(''email'', JObj [(''label'', JStr ''Email''),
                                                  (''value'', JStr ''mail@example.org'')])])]) = None \<and>
   snd (renderContact_strict_body
     (JObj [(''title'', JStr ''Contact''),
            (''details'', JObj [(''email'', JObj [(''label'', JStr ''Email''),
                                                  (''value'', JStr ''mail@example.org'')])])])
     (initial_state blank)) = Rejected \<and>
   dom (fst (renderContact_strict_body
     (JObj [(''title'', JStr ''Contact''),
            (''details'', JObj [(''email'', JObj [(''label'', JStr ''Email''),
                                                  (''value'', JStr ''mail@example.org'')])])])
     (initial_state blank))) ''#contact .contact-cta'' = TextContent []"
proof -
  let ?c = "JObj [(''title'', JStr ''Contact''),
            (''details'', JObj [(''email'', JObj [(''label'', JStr ''Email''),
                                                  (''value'', JStr ''mail@example.org'')])])]"
  have c: "ctaHtml_strict ?c = None"
    by (simp add: ctaHtml_strict_def field_def)
  obtain html where i: "contactHtml_strict ?c = Some html"
    by (simp add: contactHtml_strict_def contactItemHtml_strict_def field_def mapJoin_def)
  show ?thesis
    by (simp add: renderContact_strict_body_def c i assignText_def assignHTML_def
          domString_def nullish_def initial_state_def blank_def)
qed

text \<open>
  Two documents for which the copy \<^verbatim>\<open>part_000\<close> does not reach the anchor: an entry
  that is \<^verbatim>\<open>null\<close> makes the callback of the entries throw on \<^verbatim>\<open>item.icon\<close>, and a
  \<^verbatim>\<open>phone\<close> that is a string has the function \<^verbatim>\<open>String.prototype.link\<close> for its
  \<^verbatim>\<open>link\<close>.
\<close>

lemma null_entry_throws:
  "contactHtml_tolerant (JObj [(''details'', JObj [(''phone'', JNull)])]) = None"
  by (simp add: contactHtml_tolerant_def details_tolerant_def orElse_def
        contactItemHtml_tolerant_def fieldOr_def mapJoin_def)

lemma string_phone_links_to_builtin:
  "Option.bind (details_tolerant (JObj [(''details'', JObj [(''phone'', JStr ''123'')])]))
     phoneLink = Some (JBuiltin ''link'')"
  by (simp add: details_tolerant_def phoneLink_def orElse_def nullish_def getPropOpt_def)

end
